theory Spec2Isabelle
  imports Complex_Main "HOL-Library.Char_ord" "HOL-Library.List_Lexorder"
begin

section \<open>Frames, rows and cells\<close>

text \<open>
  A cell of a pandas frame: a finite number, NaN, a Python string (any non-numeric
  object) or None. Numbers are compared with the thresholds of the source exactly, so
  they are kept as reals.
\<close>

datatype cell = Num real | NaN | Str string | Null

datatype exn = TypeError | ValueError | SQLError

text \<open>A row (\<open>pd.Series\<close>) is the list of its labelled cells; a frame has its column
  index and its rows.\<close>

type_synonym series = "(string \<times> cell) list"

record dataframe =
  columns :: "string list"
  rows :: "series list"

text \<open>\<open>row.get(key, default)\<close>.\<close>

definition get :: "series \<Rightarrow> string \<Rightarrow> cell \<Rightarrow> cell" where
  "get row k d = (case map_of row k of None \<Rightarrow> d | Some v \<Rightarrow> v)"

text \<open>\<open>value > threshold\<close>: NaN compares false, a string or None against a number
  raises TypeError.\<close>

fun gt :: "cell \<Rightarrow> real \<Rightarrow> exn + bool" where
  "gt (Num x) t = Inr (t < x)"
| "gt NaN t = Inr False"
| "gt (Str s) t = Inl TypeError"
| "gt Null t = Inl TypeError"

section \<open>Severity classification (services/anomaly.py)\<close>

definition determine_severity :: "series \<Rightarrow> exn + string" where
  "determine_severity row =
    (case gt (get row ''Energy_kWh'' (Num 0)) 1500 of Inl e \<Rightarrow> Inl e | Inr energy_rule \<Rightarrow>
     case gt (get row ''Energy_per_kg'' (Num 0)) 15 of Inl e \<Rightarrow> Inl e | Inr efficiency_rule \<Rightarrow>
     case gt (get row ''Yield_loss_pct'' (Num 0)) 10 of Inl e \<Rightarrow> Inl e | Inr yield_rule \<Rightarrow>
     case gt (get row ''CO2_per_kg'' (Num 0)) 6.0 of Inl e \<Rightarrow> Inl e | Inr co2_rule \<Rightarrow>
       let is_model_anomaly = (get row ''anomaly_flag'' Null = Num (- 1)) in
       if energy_rule \<or> efficiency_rule \<or> yield_rule \<or> co2_rule then Inr ''RED''
       else if is_model_anomaly then Inr ''AMBER''
       else Inr ''GREEN'')"

section \<open>Python strings\<close>

text \<open>Strings are lists of code points below 256. \<open>is_upper\<close>, \<open>is_lower\<close>, \<open>isdigit\<close> and
  \<open>word_char\<close> are the classes \<open>A-Z\<close>, \<open>a-z\<close>, \<open>0-9\<close> and \<open>[a-zA-Z0-9_]\<close> of the regular
  expressions; the code applies \<open>str.isdigit\<close> only to a character of the last class, and
  \<open>float\<close> reads no other digit on this range. \<open>str.lower\<close> maps the capitals \<open>A-Z\<close> and
  those of Latin-1 (U+00C0 to U+00DE without the multiplication sign U+00D7) to the letter
  32 places on. \<open>str.strip\<close> removes the white space of Unicode on this range: the blank,
  U+0009 to U+000D, U+001C to U+001F, U+0085 and U+00A0.\<close>

definition is_upper :: "char \<Rightarrow> bool" where
  "is_upper c = (CHR ''A'' \<le> c \<and> c \<le> CHR ''Z'')"

definition is_lower :: "char \<Rightarrow> bool" where
  "is_lower c = (CHR ''a'' \<le> c \<and> c \<le> CHR ''z'')"

definition isdigit :: "char \<Rightarrow> bool" where
  "isdigit c = (CHR ''0'' \<le> c \<and> c \<le> CHR ''9'')"

definition word_char :: "char \<Rightarrow> bool" where
  "word_char c = (is_lower c \<or> is_upper c \<or> isdigit c \<or> c = CHR ''_'')"

definition is_upper_latin1 :: "char \<Rightarrow> bool" where
  "is_upper_latin1 c = (CHR 0xC0 \<le> c \<and> c \<le> CHR 0xDE \<and> c \<noteq> CHR 0xD7)"

definition lower_char :: "char \<Rightarrow> char" where
  "lower_char c = (if is_upper c \<or> is_upper_latin1 c then char_of (of_char c + (32::nat)) else c)"

definition lower :: "string \<Rightarrow> string" where
  "lower s = map lower_char s"

definition isspace :: "char \<Rightarrow> bool" where
  "isspace c = (c = CHR '' '' \<or> (CHR 0x09 \<le> c \<and> c \<le> CHR 0x0D) \<or> (CHR 0x1C \<le> c \<and> c \<le> CHR 0x1F)
                 \<or> c = CHR 0x85 \<or> c = CHR 0xA0)"

definition strip_chars :: "(char \<Rightarrow> bool) \<Rightarrow> string \<Rightarrow> string" where
  "strip_chars P s = rev (dropWhile P (rev (dropWhile P s)))"

definition strip :: "string \<Rightarrow> string" where
  "strip s = strip_chars isspace s"

text \<open>\<open>sub in s\<close>.\<close>

fun contains :: "string \<Rightarrow> string \<Rightarrow> bool" where
  "contains [] sub = (sub = [])"
| "contains (c # cs) sub = (take (length sub) (c # cs) = sub \<or> contains cs sub)"

text \<open>\<open>sep.join(parts)\<close>.\<close>

fun join :: "string \<Rightarrow> string list \<Rightarrow> string" where
  "join sep [] = []"
| "join sep [x] = x"
| "join sep (x # y # ys) = x @ sep @ join sep (y # ys)"

section \<open>Table names (services/data\_processing.py)\<close>



text \<open>\<open>re.sub(r'[^a-zA-Z0-9_]', '_', name)\<close> and \<open>re.sub(r'_+', '_', name)\<close>.\<close>

definition sub_nonword :: "string \<Rightarrow> string" where
  "sub_nonword s = map (\<lambda>c. if word_char c then c else CHR ''_'') s"


text \<open>\<open>datetime.now()\<close> is read from the environment; \<open>strftime\<close> pads each field with
  zeros to its width.\<close>

record datetime =
  year :: nat
  month :: nat
  day :: nat
  hour :: nat
  minute :: nat
  second :: nat
  microsecond :: nat


definition digit_char :: "nat \<Rightarrow> char" where
  "digit_char n = char_of (48 + n mod 10)"

fun zero_pad :: "nat \<Rightarrow> nat \<Rightarrow> string" where
  "zero_pad 0 n = []"
| "zero_pad (Suc w) n = zero_pad w (n div 10) @ [digit_char n]"



section \<open>Column names and dynamic tables\<close>

text \<open>The column rule shared by \<open>create_dynamic_table\<close>, \<open>create_unified_view\<close> and the
  row loader.\<close>

definition safe_col :: "string \<Rightarrow> string" where
  "safe_col col_name =
    (let safe = lower (sub_nonword col_name)
     in if lower col_name \<in> set [''id'', ''upload_timestamp''] then ''csv_'' @ safe else safe)"



section \<open>Type inference\<close>

text \<open>
  \<open>float(v)\<close> returns for a string exactly when, after stripping white space, every
  underscore stands between two digits and the rest, underscores removed, is an optional
  sign followed by \<open>inf\<close>, \<open>infinity\<close>, \<open>nan\<close> (in any case) or by a decimal number
  with at least one digit in its mantissa and an optional exponent with at least one digit.
\<close>

fun underscores_ok :: "char \<Rightarrow> string \<Rightarrow> bool" where
  "underscores_ok prev [] = (prev \<noteq> CHR ''_'')"
| "underscores_ok prev (c # cs) =
     ((if c = CHR ''_'' then isdigit prev else (prev = CHR ''_'' \<longrightarrow> isdigit c))
      \<and> underscores_ok c cs)"

definition drop_sign :: "string \<Rightarrow> string" where
  "drop_sign s = (case s of [] \<Rightarrow> [] | c # cs \<Rightarrow> if c = CHR ''+'' \<or> c = CHR ''-'' then cs else s)"

definition exponent_ok :: "string \<Rightarrow> bool" where
  "exponent_ok r = (case r of [] \<Rightarrow> True
     | c # cs \<Rightarrow> (c = CHR ''e'' \<or> c = CHR ''E'')
         \<and> (let d = drop_sign cs in d \<noteq> [] \<and> list_all isdigit d))"

definition float_syntax :: "string \<Rightarrow> bool" where
  "float_syntax s =
    (let u = drop_sign s in
     if lower u \<in> set [''inf'', ''infinity'', ''nan''] then True
     else
       let int_part = takeWhile isdigit u;
           r = dropWhile isdigit u
       in (case r of
             c # cs \<Rightarrow>
               if c = CHR ''.''
               then (int_part \<noteq> [] \<or> takeWhile isdigit cs \<noteq> []) \<and> exponent_ok (dropWhile isdigit cs)
               else int_part \<noteq> [] \<and> exponent_ok r
           | [] \<Rightarrow> int_part \<noteq> []))"

definition py_float_ok :: "string \<Rightarrow> bool" where
  "py_float_ok v =
    (let s = strip v in underscores_ok (CHR 0x00) s \<and> float_syntax (filter (\<lambda>c. c \<noteq> CHR ''_'') s))"

definition bool_values :: "string list" where
  "bool_values = [''true'', ''false'', ''yes'', ''no'', ''1'', ''0'', ''y'', ''n'']"

text \<open>
  \<open>infer_column_type(sample_values, col_name)\<close>. The date parser of \<open>dateutil\<close> is a
  parameter. The code calls \<open>parse(v)\<close> without a default date, and the parser then takes
  the fields that the text leaves open from \<open>datetime.now()\<close>: \<open>parse now v\<close> holds when
  \<open>dateutil.parser.parse(v)\<close> returns while the clock reads \<open>now\<close>, and \<open>clock i\<close> is the
  reading of the clock during the call for the value at index \<open>i\<close>. The block headed
  ``Check for Integer'' of the source has the body \<open>pass\<close> under a bare \<open>except\<close> and
  contributes nothing.
\<close>

definition clean_values :: "string list \<Rightarrow> string list" where
  "clean_values sample_values =
     map strip (filter (\<lambda>v. v \<noteq> [] \<and> strip v \<notin> set ['''', ''NULL'', ''null'', ''None'']) sample_values)"

definition infer_column_type ::
  "(datetime \<Rightarrow> string \<Rightarrow> bool) \<Rightarrow> (nat \<Rightarrow> datetime) \<Rightarrow> string list \<Rightarrow> string \<Rightarrow> string" where
  "infer_column_type parse clock sample_values col_name =
    (let col_lower = lower col_name in
     if contains col_lower ''date'' \<or> contains col_lower ''time'' then ''TIMESTAMP''
     else if sample_values = [] then ''TEXT''
     else
       let clean = clean_values sample_values in
       if clean = [] then ''TEXT''
       else if list_all (\<lambda>v. lower v \<in> set bool_values) clean then ''BOOLEAN''
       else if list_all py_float_ok clean then ''FLOAT''
       else if list_all (\<lambda>(i, v). parse (clock i) v) (enumerate 0 (take 5 clean)) then ''TIMESTAMP''
       else ''TEXT'')"

text \<open>The policy of the specification, step by step, for comparison with the code.\<close>

definition infer_policy ::
  "(datetime \<Rightarrow> string \<Rightarrow> bool) \<Rightarrow> (nat \<Rightarrow> datetime) \<Rightarrow> string \<Rightarrow> string list \<Rightarrow> string" where
  "infer_policy parse clock column_name sample_values =
    (if contains (lower column_name) ''date'' \<or> contains (lower column_name) ''time''
       then ''TIMESTAMP''
     else
       let remaining = filter (\<lambda>v. v \<notin> set ['''', ''NULL'', ''null'', ''None'']) (map strip sample_values) in
       if remaining = [] then ''TEXT''
       else if \<forall>v \<in> set remaining. lower v \<in> set bool_values then ''BOOLEAN''
       else if \<forall>v \<in> set remaining. py_float_ok v then ''FLOAT''
       else if \<forall>(i, v) \<in> set (enumerate 0 (take 5 remaining)). parse (clock i) v then ''TIMESTAMP''
       else ''TEXT'')"

section \<open>The database session\<close>

text \<open>
  The code reaches the database only through a session: \<open>exec\<close> of SQL text, \<open>add\<close> of
  a history object, \<open>commit\<close> and \<open>rollback\<close>. The session is the statements sent since the
  last commit, the statements committed, and the tables a \<open>SELECT *\<close> reads. Whether the
  database refuses a statement or a commit is its own affair: \<open>rejects\<close> and
  \<open>commit_fails\<close> stand for it.
\<close>

record AnomalyDetection =
  batch_id :: string
  timestamp :: string
  anomaly_score :: cell
  is_anomaly :: bool
  severity :: cell
  history_table_name :: string
  energy_kwh :: cell
  energy_per_kg :: cell
  yield_loss_pct :: cell
  co2_per_kg :: cell
  room_temp_c :: cell

datatype stmt = Sql string | Add AnomalyDetection

record db =
  tables :: "string \<Rightarrow> dataframe option"
  pending :: "stmt list"
  committed :: "stmt list"
  rejects :: "stmt \<Rightarrow> bool"
  commit_fails :: "stmt list \<Rightarrow> bool"

definition exec :: "db \<Rightarrow> string \<Rightarrow> exn + db" where
  "exec s sql = (if rejects s (Sql sql) then Inl SQLError else Inr (s\<lparr>pending := pending s @ [Sql sql]\<rparr>))"

definition add :: "db \<Rightarrow> AnomalyDetection \<Rightarrow> db" where
  "add s entry = s\<lparr>pending := pending s @ [Add entry]\<rparr>"

definition commit :: "db \<Rightarrow> exn + db" where
  "commit s = (if commit_fails s (pending s) then Inl SQLError
               else Inr (s\<lparr>committed := committed s @ pending s, pending := []\<rparr>))"

definition rollback :: "db \<Rightarrow> db" where
  "rollback s = s\<lparr>pending := []\<rparr>"



section \<open>The unified view\<close>

text \<open>
  A row of \<open>csv_files_metadata\<close>. \<open>columns_info\<close> is what \<open>json.loads\<close> makes of the
  stored text: the dictionary from column name to type, in key order, or \<open>None\<close> when
  reading it raises. \<open>upload_timestamp\<close> is the text the f-string renders.
\<close>

record CSVFileMetadata =
  filename :: string
  table_name :: string
  upload_timestamp :: string
  record_count :: nat
  columns_info :: "(string \<times> string) list option"

definition safe_cols :: "(string \<times> string) list \<Rightarrow> string list" where
  "safe_cols cols_info =
     map (\<lambda>(col_name, col_type). safe_col col_name) cols_info @ [''id'', ''upload_timestamp'', ''anomaly_alert'']"

text \<open>The first loop: \<open>all_columns\<close> and \<open>table_columns\<close>; an entry whose metadata does
  not load is skipped.\<close>

fun collect_columns ::
  "CSVFileMetadata list \<Rightarrow> string set \<times> (string \<Rightarrow> string set option)
     \<Rightarrow> string set \<times> (string \<Rightarrow> string set option)" where
  "collect_columns [] acc = acc"
| "collect_columns (metadata # rest) (all_columns, table_columns) =
     (case columns_info metadata of
        None \<Rightarrow> collect_columns rest (all_columns, table_columns)
      | Some cols_info \<Rightarrow>
          collect_columns rest
            (all_columns \<union> set (safe_cols cols_info),
             table_columns(table_name metadata \<mapsto> set (safe_cols cols_info))))"

definition all_columns :: "CSVFileMetadata list \<Rightarrow> string set" where
  "all_columns metadata_list = fst (collect_columns metadata_list ({}, Map.empty))"

definition table_columns :: "CSVFileMetadata list \<Rightarrow> string \<Rightarrow> string set option" where
  "table_columns metadata_list = snd (collect_columns metadata_list ({}, Map.empty))"

definition sorted_columns :: "CSVFileMetadata list \<Rightarrow> string list" where
  "sorted_columns metadata_list = sorted_list_of_set (all_columns metadata_list)"

definition numeric_patterns :: "string list" where
  "numeric_patterns =
     [''kwh'', ''energy'', ''weight'', ''temp'', ''temperature'',
      ''kg'', ''per_kg'', ''loss'', ''pct'', ''percent'', ''co2'',
      ''pressure'', ''humidity'', ''speed'', ''rate'', ''value'',
      ''count'', ''score'', ''factor'']"

definition dquote :: "string \<Rightarrow> string" where
  "dquote col = [CHR 0x22] @ col @ [CHR 0x22]"

definition squote :: "string \<Rightarrow> string" where
  "squote v = [CHR 0x27] @ v @ [CHR 0x27]"

definition null_column :: "string \<Rightarrow> string" where
  "null_column col = ''NULL as '' @ dquote col"

definition own_column :: "string \<Rightarrow> string" where
  "own_column col =
    (let col_lower = lower col;
         is_numeric_col = list_ex (\<lambda>pattern. contains col_lower pattern) numeric_patterns
     in if is_numeric_col then ''CAST('' @ dquote col @ '' AS DOUBLE PRECISION) as '' @ dquote col
        else if contains col_lower ''timestamp'' \<or> contains col_lower ''date'' \<or> contains col_lower ''time''
          then dquote col
        else dquote col)"

definition select_parts :: "CSVFileMetadata \<Rightarrow> string list \<Rightarrow> string set \<Rightarrow> string list" where
  "select_parts metadata sorted_cols current_table_cols =
     [squote (filename metadata) @ ''::text as source_filename'',
      squote (table_name metadata) @ ''::text as source_table'',
      squote (upload_timestamp metadata) @ ''::text as source_upload_time'']
     @ map (\<lambda>col. if col \<in> current_table_cols then own_column col else null_column col) sorted_cols"

definition select_query :: "CSVFileMetadata \<Rightarrow> string list \<Rightarrow> string set \<Rightarrow> string" where
  "select_query metadata sorted_cols current_table_cols =
     ''SELECT '' @ join '', '' (select_parts metadata sorted_cols current_table_cols)
       @ '' FROM '' @ table_name metadata"

text \<open>The second loop, over the same metadata list.\<close>

fun union_queries ::
  "CSVFileMetadata list \<Rightarrow> string list \<Rightarrow> (string \<Rightarrow> string set option) \<Rightarrow> string list" where
  "union_queries [] sorted_cols tcols = []"
| "union_queries (metadata # rest) sorted_cols tcols =
     (case tcols (table_name metadata) of
        None \<Rightarrow> union_queries rest sorted_cols tcols
      | Some current_table_cols \<Rightarrow>
          select_query metadata sorted_cols current_table_cols # union_queries rest sorted_cols tcols)"

definition view_sql :: "string list \<Rightarrow> string" where
  "view_sql queries =
     [CHR 0x0A] @ ''        CREATE OR REPLACE VIEW csv_data_unified_view AS'' @ [CHR 0x0A]
     @ ''        '' @ join '' UNION ALL '' queries @ [CHR 0x0A] @ ''        ''"

text \<open>\<open>create_unified_view(db)\<close>; \<open>metadata_list\<close> is what the query for all
  \<open>CSVFileMetadata\<close> returned. Any exception is logged and answered with a rollback.\<close>

definition create_unified_view :: "CSVFileMetadata list \<Rightarrow> db \<Rightarrow> db" where
  "create_unified_view metadata_list s =
    (if metadata_list = [] then s
     else if all_columns metadata_list = {} then s
     else
       let queries = union_queries metadata_list (sorted_columns metadata_list) (table_columns metadata_list) in
       if queries = [] then s
       else
         (case exec s ''DROP VIEW IF EXISTS csv_data_unified_view'' of
            Inl e \<Rightarrow> rollback s
          | Inr s1 \<Rightarrow>
              (case exec s1 (view_sql queries) of
                 Inl e \<Rightarrow> rollback s1
               | Inr s2 \<Rightarrow>
                   (case commit s2 of
                      Inl e \<Rightarrow> rollback s2
                    | Inr s3 \<Rightarrow> s3))))"

section \<open>Feature engineering: the column index (ml/feature\_engineering.py)\<close>

text \<open>
  The stages of the feature engineer, as they act on the column index of the frame
  (\<open>df.columns\<close>): \<open>df.rename\<close> relabels, \<open>df[c] = ...\<close> appends the label \<open>c\<close> unless the
  frame has it. The numbers the stages compute are floating-point arithmetic on the
  cells and are not part of this model. What the model keeps of the arithmetic is that it
  may raise: \<open>arith operands\<close> is the exception pandas raises on the operand columns, if
  any. The basic stage has no handler, so its exceptions leave \<open>engineer_features\<close>; the
  handlers of the temporal and equipment stages assign constants to the same labels as
  the guarded code before them, which never raises; the handler of the rolling stage
  copies columns, which can raise again.
\<close>

record feature_config =
  temporal_features :: bool
  rolling_features :: bool
  equipment_features :: bool
  rolling_window :: nat

definition init_config :: feature_config where
  "init_config = \<lparr>temporal_features = True, rolling_features = True,
                  equipment_features = True, rolling_window = 10\<rparr>"

definition assign_col :: "string \<Rightarrow> string list \<Rightarrow> string list" where
  "assign_col c cols = (if c \<in> set cols then cols else cols @ [c])"

definition rename :: "string \<Rightarrow> string \<Rightarrow> string list \<Rightarrow> string list" where
  "rename old_col new_col cols = map (\<lambda>c. if c = old_col then new_col else c) cols"

definition column_mapping :: "(string \<times> string) list" where
  "column_mapping =
     [(''Energy Consumption (kWh)'', ''Energy_kWh''),
      (''Energy_Consumption__kWh_'', ''Energy_kWh''),
      (''energy_consumption__kwh_'', ''Energy_kWh''),
      (''OutputWeight_kg'', ''OutputWeight_kg''),
      (''outputweight_kg'', ''OutputWeight_kg''),
      (''InputWeight_kg'', ''InputWeight_kg''),
      (''inputweight_kg'', ''InputWeight_kg''),
      (''RoomTemp_C'', ''RoomTemp_C''),
      (''roomtemp_c'', ''RoomTemp_C''),
      (''RoomTemperature_C'', ''RoomTemp_C''),
      (''roomtemperature_c'', ''RoomTemp_C'')]"

fun apply_mapping :: "(string \<times> string) list \<Rightarrow> string list \<Rightarrow> string list" where
  "apply_mapping [] cols = cols"
| "apply_mapping ((old_col, new_col) # rest) cols =
     apply_mapping rest (if old_col \<in> set cols then rename old_col new_col cols else cols)"

text \<open>An assignment \<open>df[target] = ...\<close> whose right-hand side is arithmetic over the
  operand columns: it assigns the label, or raises what pandas raises on those columns,
  in the arithmetic or in assigning its result.\<close>

definition derive ::
  "(string list \<Rightarrow> exn option) \<Rightarrow> string list \<Rightarrow> string \<Rightarrow> string list \<Rightarrow> exn + string list" where
  "derive arith operands target cols =
     (case arith operands of Some e \<Rightarrow> Inl e | None \<Rightarrow> Inr (assign_col target cols))"

definition calculate_basic_features ::
  "(string list \<Rightarrow> exn option) \<Rightarrow> string list \<Rightarrow> exn + string list" where
  "calculate_basic_features arith cols0 =
    (let cols = apply_mapping column_mapping cols0 in
     case (if ''Energy_kWh'' \<in> set cols \<and> ''OutputWeight_kg'' \<in> set cols
           then derive arith [''Energy_kWh'', ''OutputWeight_kg''] ''Energy_per_kg'' cols
           else Inr cols) of Inl e \<Rightarrow> Inl e | Inr cols \<Rightarrow>
     case (if ''InputWeight_kg'' \<in> set cols \<and> ''OutputWeight_kg'' \<in> set cols
           then derive arith [''InputWeight_kg'', ''OutputWeight_kg''] ''Yield_loss_pct'' cols
           else Inr cols) of Inl e \<Rightarrow> Inl e | Inr cols \<Rightarrow>
     case (if ''Energy_kWh'' \<in> set cols \<and> ''OutputWeight_kg'' \<in> set cols
           then (if ''kg_co2_per_kwh'' \<in> set cols
                 then derive arith [''Energy_kWh'', ''kg_co2_per_kwh'', ''OutputWeight_kg''] ''CO2_per_kg'' cols
                 else derive arith [''Energy_kWh'', ''OutputWeight_kg''] ''CO2_per_kg'' cols)
           else Inr cols) of Inl e \<Rightarrow> Inl e | Inr cols \<Rightarrow>
     (if ''Energy_kWh'' \<in> set cols \<and> ''RoomTemp_C'' \<in> set cols
      then derive arith [''Energy_kWh'', ''RoomTemp_C''] ''Energy_x_Temp'' cols
      else Inr cols))"

definition calculate_temporal_features :: "feature_config \<Rightarrow> string list \<Rightarrow> string list" where
  "calculate_temporal_features config cols =
    (if \<not> temporal_features config then cols
     else
       (case find (\<lambda>col. col \<in> set cols) [''upload_timestamp'', ''timestamp'', ''BatchDate'', ''date'', ''Date''] of
          Some timestamp_col \<Rightarrow>
            assign_col ''Time_Since_Last_Batch''
              (assign_col ''Batch_DayOfWeek'' (assign_col ''Batch_Hour'' (assign_col timestamp_col cols)))
        | None \<Rightarrow>
            assign_col ''Time_Since_Last_Batch''
              (assign_col ''Batch_DayOfWeek'' (assign_col ''Batch_Hour'' cols))))"

text \<open>
  The rolling stage. \<open>df[src]\<close> is a frame of as many columns as carry the label \<open>src\<close>
  (two aliases of the column mapping in one frame are both renamed to \<open>Energy_kWh\<close>).
  pandas assigns a frame of more than one column to a label only if as many columns carry
  that label already, and raises \<open>ValueError\<close> otherwise; assigning a single column or a
  constant never raises. A statement of the guarded block computes a rolling statistic
  of \<open>df[src]\<close>, which has a column for each column of \<open>df[src]\<close>, and assigns it to
  \<open>target\<close>: \<open>rolling target\<close> is the exception that computing the statistic raises on the
  data, if any. The handler stands outside every \<open>try\<close> and assigns \<open>df[src]\<close> itself.
\<close>

definition count_label :: "string \<Rightarrow> string list \<Rightarrow> nat" where
  "count_label c cols = length (filter (\<lambda>x. x = c) cols)"

definition copy_col :: "string \<Rightarrow> string \<Rightarrow> string list \<Rightarrow> exn + string list" where
  "copy_col src target cols =
     (if 1 < count_label src cols \<and> count_label target cols \<noteq> count_label src cols
      then Inl ValueError
      else Inr (assign_col target cols))"

definition rolling_stat ::
  "(string \<Rightarrow> exn option) \<Rightarrow> string \<Rightarrow> string \<Rightarrow> string list \<Rightarrow> exn + string list" where
  "rolling_stat rolling src target cols =
     (case rolling target of Some e \<Rightarrow> Inl e | None \<Rightarrow> copy_col src target cols)"

text \<open>The handler, on the frame as the guarded block left it.\<close>

definition rolling_fallback :: "string list \<Rightarrow> exn + string list" where
  "rolling_fallback cols0 =
     (case (if ''Energy_kWh'' \<in> set cols0
            then (case copy_col ''Energy_kWh'' ''Energy_kWh_Rolling_Mean'' cols0 of
                    Inl e \<Rightarrow> Inl e
                  | Inr cols \<Rightarrow> Inr (assign_col ''Energy_kWh_Rolling_Std'' cols))
            else Inr cols0) of
        Inl e \<Rightarrow> Inl e
      | Inr cols \<Rightarrow>
          if ''Yield_loss_pct'' \<in> set cols
          then copy_col ''Yield_loss_pct'' ''Yield_loss_pct_Rolling_Mean'' cols
          else Inr cols)"

definition rolling_yield :: "(string \<Rightarrow> exn option) \<Rightarrow> string list \<Rightarrow> exn + string list" where
  "rolling_yield rolling cols =
     (if ''Yield_loss_pct'' \<in> set cols
      then (case rolling_stat rolling ''Yield_loss_pct'' ''Yield_loss_pct_Rolling_Mean'' cols of
              Inl e \<Rightarrow> rolling_fallback cols
            | Inr cols' \<Rightarrow> Inr cols')
      else Inr cols)"

definition calculate_rolling_features ::
  "(string \<Rightarrow> exn option) \<Rightarrow> feature_config \<Rightarrow> string list \<Rightarrow> exn + string list" where
  "calculate_rolling_features rolling config cols0 =
    (if \<not> rolling_features config then Inr cols0
     else if ''Energy_kWh'' \<in> set cols0
     then (case rolling_stat rolling ''Energy_kWh'' ''Energy_kWh_Rolling_Mean'' cols0 of
             Inl e \<Rightarrow> rolling_fallback cols0
           | Inr cols1 \<Rightarrow>
               (case rolling_stat rolling ''Energy_kWh'' ''Energy_kWh_Rolling_Std'' cols1 of
                  Inl e \<Rightarrow> rolling_fallback cols1
                | Inr cols \<Rightarrow> rolling_yield rolling cols))
     else rolling_yield rolling cols0)"

definition calculate_equipment_features :: "feature_config \<Rightarrow> string list \<Rightarrow> string list" where
  "calculate_equipment_features config cols0 =
    (if \<not> equipment_features config then cols0
     else
       let cols = (if ''MachineName'' \<in> set cols0
                   then assign_col ''Machine_Batch_Count'' cols0
                   else assign_col ''Machine_Batch_Count'' cols0);
           cols = (if ''ProductionStage'' \<in> set cols
                   then assign_col ''ProductionStage_Encoded'' cols
                   else assign_col ''ProductionStage_Encoded'' cols);
           cols = (if ''MachineName'' \<in> set cols
                      \<and> list_ex (\<lambda>col. col \<in> set cols) [''upload_timestamp'', ''timestamp'', ''BatchDate'']
                   then assign_col ''Machine_Utilization'' cols
                   else assign_col ''Machine_Utilization'' cols)
       in cols)"

definition engineer_features ::
  "(string list \<Rightarrow> exn option) \<Rightarrow> (string \<Rightarrow> exn option) \<Rightarrow> feature_config \<Rightarrow> string list
     \<Rightarrow> exn + string list" where
  "engineer_features arith rolling config cols =
     (case calculate_basic_features arith cols of
        Inl e \<Rightarrow> Inl e
      | Inr basic \<Rightarrow>
          (case calculate_rolling_features rolling config (calculate_temporal_features config basic) of
             Inl e \<Rightarrow> Inl e
           | Inr rolled \<Rightarrow> Inr (calculate_equipment_features config rolled)))"

definition get_feature_names :: "string list" where
  "get_feature_names =
     [''Energy_kWh'', ''Energy_per_kg'', ''Yield_loss_pct'', ''RoomTemp_C'', ''CO2_per_kg'', ''Energy_x_Temp'',
      ''Batch_Hour'', ''Batch_DayOfWeek'', ''Time_Since_Last_Batch'',
      ''Energy_kWh_Rolling_Mean'', ''Energy_kWh_Rolling_Std'', ''Yield_loss_pct_Rolling_Mean'',
      ''Machine_Batch_Count'', ''ProductionStage_Encoded'', ''Machine_Utilization'']"

section \<open>Scoring a table (services/anomaly.py)\<close>

text \<open>
  The fitted estimator and scaler are objects of scikit-learn; the model takes what they
  return. \<open>decision_function\<close> is \<open>None\<close> when the call raises.
\<close>

record ml_model =
  predict :: "cell list list \<Rightarrow> int list"
  decision_function :: "cell list list \<Rightarrow> real list option"

record service =
  model :: "ml_model option"
  scaler :: "(cell list list \<Rightarrow> cell list list) option"

text \<open>
  What the run reads from outside: \<open>calculate_features\<close> (the KPI arithmetic of the
  service on the loaded frame, which may raise), Python's \<open>str\<close> on a cell,
  \<open>pd.to_datetime\<close> (\<open>None\<close> when it raises) and the clock \<open>datetime.utcnow()\<close>.
\<close>

record env =
  calculate_features :: "dataframe \<Rightarrow> exn + dataframe"
  py_str :: "cell \<Rightarrow> string"
  to_datetime :: "cell \<Rightarrow> string option"
  utcnow :: string

datatype jval = JStr string | JInt nat | JList "string list" | JDict "(string \<times> nat) list"

type_synonym result = "(string \<times> jval) list"

definition str_exn :: "exn \<Rightarrow> string" where
  "str_exn e = (case e of TypeError \<Rightarrow> ''TypeError'' | ValueError \<Rightarrow> ''ValueError''
                 | SQLError \<Rightarrow> ''SQLError'')"

definition required_features :: "string list" where
  "required_features =
     [''Energy_kWh'', ''Energy_per_kg'', ''Yield_loss_pct'',
      ''RoomTemp_C'', ''CO2_per_kg'', ''Energy_x_Temp'']"

text \<open>\<open>df[col] = value\<close> on one row.\<close>

fun assign :: "string \<Rightarrow> cell \<Rightarrow> series \<Rightarrow> series" where
  "assign k v [] = [(k, v)]"
| "assign k v ((k', v') # row) = (if k = k' then (k, v) # row else (k', v') # assign k v row)"

text \<open>The cells of a row under the required features; a cell the row lacks reads NaN.\<close>

definition features_of :: "series \<Rightarrow> cell list" where
  "features_of row = map (\<lambda>col. get row col NaN) required_features"

definition is_object :: "cell \<Rightarrow> bool" where
  "is_object v = (case v of Str s \<Rightarrow> True | Null \<Rightarrow> True | _ \<Rightarrow> False)"

definition valid_mask :: "series \<Rightarrow> bool" where
  "valid_mask row = (\<not> list_ex (\<lambda>v. v = NaN) (features_of row))"

text \<open>Python's truth value of a cell, and \<open>pd.notnull\<close>.\<close>

definition truthy :: "cell \<Rightarrow> bool" where
  "truthy v = (case v of Num x \<Rightarrow> x \<noteq> 0 | NaN \<Rightarrow> True | Str s \<Rightarrow> s \<noteq> [] | Null \<Rightarrow> False)"

definition notnull :: "cell \<Rightarrow> bool" where
  "notnull v = (case v of Num x \<Rightarrow> True | NaN \<Rightarrow> False | Str s \<Rightarrow> True | Null \<Rightarrow> False)"

text \<open>\<open>float(v)\<close> on a cell that holds a number; on a string the model raises (the
  columns read with it are written by the scorer and hold numbers).\<close>

definition py_float :: "cell \<Rightarrow> exn + cell" where
  "py_float v = (case v of Num x \<Rightarrow> Inr (Num x) | NaN \<Rightarrow> Inr NaN
                  | Str s \<Rightarrow> Inl ValueError | Null \<Rightarrow> Inl TypeError)"

fun sequence :: "(exn + 'a) list \<Rightarrow> exn + 'a list" where
  "sequence [] = Inr []"
| "sequence (x # xs) =
     (case x of Inl e \<Rightarrow> Inl e
      | Inr v \<Rightarrow> (case sequence xs of Inl e \<Rightarrow> Inl e | Inr vs \<Rightarrow> Inr (v # vs)))"

text \<open>The rows that are scored: the valid rows with \<open>anomaly_flag\<close>, \<open>anomaly_score\<close> and
  \<open>severity\<close> assigned (lines 199 to 223).\<close>

definition score_rows :: "service \<Rightarrow> ml_model \<Rightarrow> series list \<Rightarrow> exn + series list" where
  "score_rows svc m valid =
    (let features_valid = map features_of valid;
         features_scaled = (case scaler svc of Some transform \<Rightarrow> transform features_valid
                                             | None \<Rightarrow> features_valid);
         predictions = predict m features_scaled
     in if length predictions \<noteq> length valid then Inl ValueError
        else
          let flags = map (\<lambda>p. Num (of_int p)) predictions;
              df_valid = map (\<lambda>(row, flag). assign ''anomaly_flag'' flag row) (zip valid flags);
              scores = (case decision_function m features_scaled of
                          Some sc \<Rightarrow> if length sc = length valid then map Num sc else flags
                        | None \<Rightarrow> flags);
              df_valid = map (\<lambda>(row, score). assign ''anomaly_score'' score row) (zip df_valid scores)
          in (case sequence (map determine_severity df_valid) of
                Inl e \<Rightarrow> Inl e
              | Inr severities \<Rightarrow>
                  Inr (map (\<lambda>(row, sev). assign ''severity'' (Str sev) row) (zip df_valid severities))))"

text \<open>The \<open>updates\<close> dictionary and the loop that fills it.\<close>

definition dict_append :: "(string \<times> string list) list \<Rightarrow> string \<Rightarrow> string \<Rightarrow> (string \<times> string list) list" where
  "dict_append updates key x = map (\<lambda>(k, ids). if k = key then (k, ids @ [x]) else (k, ids)) updates"

fun collect_updates ::
  "(cell \<Rightarrow> string) \<Rightarrow> series list \<Rightarrow> (string \<times> string list) list \<Rightarrow> (string \<times> string list) list" where
  "collect_updates str [] updates = updates"
| "collect_updates str (row # rest) updates =
     (let record_id = get row ''id'' Null;
          severity = get row ''severity'' Null
      in collect_updates str rest
           (if truthy record_id \<and> truthy severity
            then (case severity of Str sev \<Rightarrow> dict_append updates sev (str record_id) | _ \<Rightarrow> updates)
            else updates))"

definition update_sql :: "string \<Rightarrow> string \<Rightarrow> string list \<Rightarrow> string" where
  "update_sql tname sev ids =
     ''UPDATE '' @ tname @ '' SET anomaly_alert = '' @ squote sev
       @ '' WHERE id IN ('' @ join '', '' ids @ '')''"

text \<open>The loop over \<open>updates.items()\<close>: the session as it is when the loop ends or a
  statement raises.\<close>

fun run_updates :: "string \<Rightarrow> (string \<times> string list) list \<Rightarrow> db \<Rightarrow> exn option \<times> db" where
  "run_updates tname [] s = (None, s)"
| "run_updates tname ((sev, ids) # rest) s =
     (if ids \<noteq> []
      then (case exec s (update_sql tname sev ids) of
              Inl e \<Rightarrow> (Some e, s)
            | Inr s' \<Rightarrow> run_updates tname rest s')
      else run_updates tname rest s)"

text \<open>One history object (lines 250 to 274).\<close>

definition kpi :: "series \<Rightarrow> string \<Rightarrow> exn + cell" where
  "kpi row col = (if notnull (get row col Null) then py_float (get row col (Num 0)) else Inr (Num 0))"

definition entry_timestamp :: "env \<Rightarrow> series \<Rightarrow> exn + string" where
  "entry_timestamp E row =
    (if map_of row ''upload_timestamp'' \<noteq> None \<and> notnull (get row ''upload_timestamp'' Null)
     then (case to_datetime E (get row ''upload_timestamp'' Null) of
             None \<Rightarrow> Inl ValueError | Some ts \<Rightarrow> Inr ts)
     else if map_of row ''date'' \<noteq> None \<and> notnull (get row ''date'' Null)
     then (case to_datetime E (get row ''date'' Null) of
             None \<Rightarrow> Inr (utcnow E) | Some ts \<Rightarrow> Inr ts)
     else Inr (utcnow E))"

definition make_entry :: "env \<Rightarrow> string \<Rightarrow> series \<Rightarrow> exn + AnomalyDetection" where
  "make_entry E tname row =
    (case entry_timestamp E row of Inl e \<Rightarrow> Inl e | Inr ts \<Rightarrow>
     case py_float (get row ''anomaly_score'' (Num 0)) of Inl e \<Rightarrow> Inl e | Inr score \<Rightarrow>
     case kpi row ''Energy_kWh'' of Inl e \<Rightarrow> Inl e | Inr e_kwh \<Rightarrow>
     case kpi row ''Energy_per_kg'' of Inl e \<Rightarrow> Inl e | Inr e_per_kg \<Rightarrow>
     case kpi row ''Yield_loss_pct'' of Inl e \<Rightarrow> Inl e | Inr yield \<Rightarrow>
     case kpi row ''CO2_per_kg'' of Inl e \<Rightarrow> Inl e | Inr co2 \<Rightarrow>
     case kpi row ''RoomTemp_C'' of Inl e \<Rightarrow> Inl e | Inr temp \<Rightarrow>
       Inr \<lparr>batch_id = py_str E (get row ''batchid'' (Str ''unknown'')),
            timestamp = ts,
            anomaly_score = score,
            is_anomaly = True,
            severity = get row ''severity'' (Str ''AMBER''),
            history_table_name = tname,
            energy_kwh = e_kwh,
            energy_per_kg = e_per_kg,
            yield_loss_pct = yield,
            co2_per_kg = co2,
            room_temp_c = temp\<rparr>)"

fun add_entries :: "env \<Rightarrow> string \<Rightarrow> series list \<Rightarrow> db \<Rightarrow> exn option \<times> db" where
  "add_entries E tname [] s = (None, s)"
| "add_entries E tname (row # rest) s =
     (case make_entry E tname row of
        Inl e \<Rightarrow> (Some e, s)
      | Inr anomaly_entry \<Rightarrow> add_entries E tname rest (add s anomaly_entry))"

text \<open>The inner \<open>try\<close>: the history of the RED and AMBER rows; any exception is answered
  with a rollback and the run goes on.\<close>

definition anomalies :: "series list \<Rightarrow> series list" where
  "anomalies df_valid =
     filter (\<lambda>row. get row ''severity'' Null \<in> set [Str ''RED'', Str ''AMBER'']) df_valid"

definition persist_history :: "env \<Rightarrow> string \<Rightarrow> series list \<Rightarrow> db \<Rightarrow> db" where
  "persist_history E tname df_valid s =
     (case add_entries E tname (anomalies df_valid) s of
        (Some e, s1) \<Rightarrow> rollback s1
      | (None, s1) \<Rightarrow>
          (case commit s1 of
             Inl e \<Rightarrow> rollback s1
           | Inr s2 \<Rightarrow> s2))"

definition ids_of :: "(string \<times> string list) list \<Rightarrow> string \<Rightarrow> string list" where
  "ids_of updates sev = (case map_of updates sev of None \<Rightarrow> [] | Some ids \<Rightarrow> ids)"

text \<open>The outer \<open>try\<close> (lines 234 to 296).\<close>

definition write_back :: "env \<Rightarrow> string \<Rightarrow> series list \<Rightarrow> db \<Rightarrow> result \<times> db" where
  "write_back E tname df_valid s =
    (let updates = collect_updates (py_str E) df_valid [(''RED'', []), (''AMBER'', []), (''GREEN'', [])]
     in (case run_updates tname updates s of
           (Some e, s1) \<Rightarrow> ([(''status'', JStr ''error''), (''error'', JStr (str_exn e))], rollback s1)
         | (None, s1) \<Rightarrow>
             (case commit s1 of
                Inl e \<Rightarrow> ([(''status'', JStr ''error''), (''error'', JStr (str_exn e))], rollback s1)
              | Inr s2 \<Rightarrow>
                  ([(''status'', JStr ''success''),
                    (''anomalies'', JInt (length (ids_of updates ''RED'') + length (ids_of updates ''AMBER''))),
                    (''details'', JDict (map (\<lambda>(k, v). (k, length v)) updates))],
                   persist_history E tname df_valid s2))))"

definition detect_and_update :: "env \<Rightarrow> service \<Rightarrow> string \<Rightarrow> db \<Rightarrow> (exn + result) \<times> db" where
  "detect_and_update E svc tname s =
    (case model svc of
       None \<Rightarrow> (Inr [(''status'', JStr ''skipped''), (''reason'', JStr ''model_not_loaded'')], s)
     | Some m \<Rightarrow>
    (case tables s tname of
       None \<Rightarrow> (Inr [(''status'', JStr ''error''), (''reason'', JStr (str_exn SQLError))], s)
     | Some df \<Rightarrow>
    if rows df = [] then (Inr [(''status'', JStr ''skipped''), (''reason'', JStr ''no_data'')], s)
    else
    (case calculate_features E df of
       Inl e \<Rightarrow> (Inl e, s)
     | Inr df_calc \<Rightarrow>
    let missing = filter (\<lambda>col. col \<notin> set (columns df_calc)) required_features in
    if missing \<noteq> []
    then (Inr [(''status'', JStr ''skipped''), (''reason'', JStr ''missing_columns''),
               (''missing'', JList missing)], s)
    else if list_ex (\<lambda>row. list_ex is_object (features_of row)) (rows df_calc) then (Inl TypeError, s)
    else
    let valid = filter valid_mask (rows df_calc) in
    if valid = [] then (Inr [(''status'', JStr ''skipped''), (''reason'', JStr ''no_valid_data_rows'')], s)
    else
    (case score_rows svc m valid of
       Inl e \<Rightarrow> (Inl e, s)
     | Inr df_valid \<Rightarrow>
         (case write_back E tname df_valid s of (r, s') \<Rightarrow> (Inr r, s'))))))"

section \<open>Reference notions for the properties\<close>

text \<open>The statements that the loop over \<open>updates.items()\<close> sends when none is refused,
  and the history objects that reach the database (none when building one raises or the
  commit fails).\<close>

definition update_statements :: "string \<Rightarrow> (string \<times> string list) list \<Rightarrow> stmt list" where
  "update_statements tname updates =
     map (\<lambda>(sev, ids). Sql (update_sql tname sev ids)) (filter (\<lambda>(sev, ids). ids \<noteq> []) updates)"

definition history_statements :: "env \<Rightarrow> string \<Rightarrow> series list \<Rightarrow> db \<Rightarrow> stmt list" where
  "history_statements E tname rs s =
     (case sequence (map (make_entry E tname) rs) of
        Inl e \<Rightarrow> []
      | Inr entries \<Rightarrow> if commit_fails s (map Add entries) then [] else map Add entries)"

text \<open>The sanitized columns of one registered table, the three implicit ones included;
  none when its metadata does not load.\<close>

definition columns_of :: "CSVFileMetadata \<Rightarrow> string set" where
  "columns_of m = (case columns_info m of None \<Rightarrow> {} | Some cols_info \<Rightarrow> set (safe_cols cols_info))"

text \<open>A frame without the rows that hold NaN under a required feature, and the
  environment whose feature computation leaves those rows out.\<close>

definition drop_nan_rows :: "dataframe \<Rightarrow> dataframe" where
  "drop_nan_rows df =
     df\<lparr>rows := filter (\<lambda>row. \<forall>col \<in> set required_features. get row col NaN \<noteq> NaN) (rows df)\<rparr>"

definition without_nan_rows :: "env \<Rightarrow> env" where
  "without_nan_rows E =
     E\<lparr>calculate_features :=
         (\<lambda>df. case calculate_features E df of Inl e \<Rightarrow> Inl e | Inr df_calc \<Rightarrow> Inr (drop_nan_rows df_calc))\<rparr>"



section \<open>Sample data\<close>

text \<open>A table of three batches (the second has NaN under two KPIs), an estimator that
  flags every row as normal, and sessions over them; used to run the functions on concrete
  input.\<close>

definition sample_frame :: dataframe where
  "sample_frame =
     \<lparr>columns = [''id'', ''Energy_kWh'', ''Energy_per_kg'', ''Yield_loss_pct'', ''RoomTemp_C'',
                 ''CO2_per_kg'', ''Energy_x_Temp''],
      rows = [[(''id'', Num 1), (''Energy_kWh'', Num 1600), (''Energy_per_kg'', Num 8),
               (''Yield_loss_pct'', Num 2), (''RoomTemp_C'', Num 21), (''CO2_per_kg'', Num 4),
               (''Energy_x_Temp'', Num 33600)],
              [(''id'', Num 2), (''Energy_kWh'', Num 900), (''Energy_per_kg'', NaN),
               (''Yield_loss_pct'', Num 2), (''RoomTemp_C'', Num 21), (''CO2_per_kg'', NaN),
               (''Energy_x_Temp'', Num 18900)],
              [(''id'', Num 3), (''Energy_kWh'', Num 900), (''Energy_per_kg'', Num 6),
               (''Yield_loss_pct'', Num 2), (''RoomTemp_C'', Num 21), (''CO2_per_kg'', Num 3),
               (''Energy_x_Temp'', Num 18900)]]\<rparr>"

definition sample_scored :: "series list" where
  "sample_scored =
     [[(''id'', Num 1), (''Energy_kWh'', Num 1600), (''Energy_per_kg'', Num 8),
       (''Yield_loss_pct'', Num 2), (''RoomTemp_C'', Num 21), (''CO2_per_kg'', Num 4),
       (''Energy_x_Temp'', Num 33600), (''anomaly_flag'', Num 1), (''anomaly_score'', Num 1),
       (''severity'', Str ''RED'')],
      [(''id'', Num 3), (''Energy_kWh'', Num 900), (''Energy_per_kg'', Num 6),
       (''Yield_loss_pct'', Num 2), (''RoomTemp_C'', Num 21), (''CO2_per_kg'', Num 3),
       (''Energy_x_Temp'', Num 18900), (''anomaly_flag'', Num 1), (''anomaly_score'', Num 1),
       (''severity'', Str ''GREEN'')]]"

definition nan_frame :: dataframe where
  "nan_frame = sample_frame\<lparr>rows := [rows sample_frame ! 1]\<rparr>"

definition raw_frame :: dataframe where
  "raw_frame = \<lparr>columns = [''id'', ''Energy_kWh''], rows = [[(''id'', Num 1), (''Energy_kWh'', Num 900)]]\<rparr>"

definition empty_frame :: dataframe where
  "empty_frame = \<lparr>columns = [''id''], rows = []\<rparr>"

definition sample_str :: "cell \<Rightarrow> string" where
  "sample_str v = (if v = Num 1 then ''1'' else if v = Num 2 then ''2'' else if v = Num 3 then ''3''
                   else ''unknown'')"

definition sample_env :: env where
  "sample_env = \<lparr>calculate_features = (\<lambda>df. Inr df), py_str = sample_str,
                  to_datetime = (\<lambda>v. None), utcnow = ''2024-01-02 03:04:05''\<rparr>"

definition sample_model :: ml_model where
  "sample_model = \<lparr>predict = (\<lambda>X. map (\<lambda>x. 1) X), decision_function = (\<lambda>X. None)\<rparr>"

definition sample_service :: service where
  "sample_service = \<lparr>model = Some sample_model, scaler = None\<rparr>"

definition unloaded_service :: service where
  "unloaded_service = \<lparr>model = None, scaler = None\<rparr>"

definition is_add :: "stmt \<Rightarrow> bool" where
  "is_add st = (case st of Add entry \<Rightarrow> True | Sql sql \<Rightarrow> False)"

definition sample_db :: db where
  "sample_db =
     \<lparr>tables = map_of [(''batches'', sample_frame), (''nans'', nan_frame), (''raw'', raw_frame),
                        (''empty'', empty_frame)],
      pending = [], committed = [], rejects = (\<lambda>st. False), commit_fails = (\<lambda>p. False)\<rparr>"

text \<open>The same session over a database that refuses to commit history objects.\<close>

definition history_failing_db :: db where
  "history_failing_db = sample_db\<lparr>commit_fails := list_ex is_add\<rparr>"

definition sample_entry :: AnomalyDetection where
  "sample_entry =
     \<lparr>batch_id = ''unknown'', timestamp = ''2024-01-02 03:04:05'', anomaly_score = Num 1,
      is_anomaly = True, severity = Str ''RED'', history_table_name = ''batches'',
      energy_kwh = Num 1600, energy_per_kg = Num 8, yield_loss_pct = Num 2,
      co2_per_kg = Num 4, room_temp_c = Num 21\<rparr>"

text \<open>Three readings of the clock within two milliseconds (250, 900 and 1250
  microseconds past the second).\<close>

definition upload_time_a :: datetime where
  "upload_time_a = \<lparr>year = 2024, month = 1, day = 2, hour = 3, minute = 4, second = 5,
                      microsecond = 250\<rparr>"



text \<open>A clock that stands in January, one that stands in April, and a date parser for the texts that name a day of
  the month with its ordinal suffix, as \<open>31st\<close>: \<open>dateutil\<close> reads the day, takes the year and
  the month from the clock, and fails when that month has no such day. The sample parser
  accepts no other text.\<close>

definition january_clock :: "nat \<Rightarrow> datetime" where
  "january_clock i = upload_time_a"

definition april_clock :: "nat \<Rightarrow> datetime" where
  "april_clock i = upload_time_a\<lparr>month := 4\<rparr>"

definition days_in_month :: "nat \<Rightarrow> nat \<Rightarrow> nat" where
  "days_in_month y m =
     (if m = 2 then (if y mod 4 = 0 \<and> (y mod 100 \<noteq> 0 \<or> y mod 400 = 0) then 29 else 28)
      else if m \<in> set [4, 6, 9, 11] then 30 else 31)"

definition ordinal_day :: "string \<Rightarrow> nat option" where
  "ordinal_day v =
     (let digits = takeWhile isdigit v;
          d = foldl (\<lambda>n c. 10 * n + (of_char c - 48)) 0 digits
      in if digits \<noteq> [] \<and> length digits \<le> 2 \<and> d \<le> 31 \<and> dropWhile isdigit v \<in> set [''st'', ''nd'', ''rd'', ''th'']
         then Some d else None)"

definition ordinal_day_parse :: "datetime \<Rightarrow> string \<Rightarrow> bool" where
  "ordinal_day_parse now v =
     (case ordinal_day v of
        None \<Rightarrow> False
      | Some d \<Rightarrow> 1 \<le> d \<and> d \<le> days_in_month (year now) (month now))"

text \<open>Two registered uploads with different columns.\<close>

definition energy_upload :: CSVFileMetadata where
  "energy_upload =
     \<lparr>filename = ''energy.csv'', table_name = ''csv_energy_20240102_030405_000'',
      upload_timestamp = ''2024-01-02 03:04:05'', record_count = 2,
      columns_info = Some [(''Energy kWh'', ''FLOAT''), (''ID'', ''TEXT'')]\<rparr>"

definition notes_upload :: CSVFileMetadata where
  "notes_upload =
     \<lparr>filename = ''notes.csv'', table_name = ''csv_notes_20240102_030406_000'',
      upload_timestamp = ''2024-01-02 03:04:06'', record_count = 1,
      columns_info = Some [(''Notes'', ''TEXT'')]\<rparr>"

section \<open>Properties of the severity classification\<close>

lemma gt_get_absent: "map_of row k = None \<Longrightarrow> gt (get row k (Num 0)) t = Inr (t < 0)"
  by (simp add: get_def)

lemma gt_True: "gt v t = Inr True \<Longrightarrow> \<exists>x. v = Num x \<and> t < x"
  by (cases v) auto

lemma get_Num: "get row k (Num 0) = Num x \<Longrightarrow> x \<noteq> 0 \<Longrightarrow> map_of row k = Some (Num x)"
  by (auto simp: get_def split: option.splits)

lemma determine_severity_RED:
  assumes "determine_severity row = Inr ''RED''"
  shows "gt (get row ''Energy_kWh'' (Num 0)) 1500 = Inr True
       \<or> gt (get row ''Energy_per_kg'' (Num 0)) 15 = Inr True
       \<or> gt (get row ''Yield_loss_pct'' (Num 0)) 10 = Inr True
       \<or> gt (get row ''CO2_per_kg'' (Num 0)) 6.0 = Inr True"
  using assms unfolding determine_severity_def Let_def
  by (simp split: sum.splits if_splits)

lemma determine_severity_numeric:
  assumes "map_of row ''Energy_kWh'' = Some (Num e)"
      and "map_of row ''Energy_per_kg'' = Some (Num p)"
      and "map_of row ''Yield_loss_pct'' = Some (Num y)"
      and "map_of row ''CO2_per_kg'' = Some (Num c)"
  shows "determine_severity row =
           Inr (if 1500 < e \<or> 15 < p \<or> 10 < y \<or> 6.0 < c then ''RED''
                else if map_of row ''anomaly_flag'' = Some (Num (- 1)) then ''AMBER''
                else ''GREEN'')"
  using assms by (auto simp: determine_severity_def get_def split: option.splits)

text \<open>
  Claim C1. On a scored row (the four KPIs of the hard rules hold numbers)
  \<open>determine_severity\<close> returns RED when a KPI exceeds its threshold
  (\<open>Energy_kWh > 1500\<close>, \<open>Energy_per_kg > 15\<close>, \<open>Yield_loss_pct > 10\<close>, \<open>CO2_per_kg > 6.0\<close>),
  otherwise AMBER when the model flag is \<open>-1\<close>, otherwise GREEN. So a row with
  \<open>Energy_kWh = 1600\<close> and the other KPIs at or below their thresholds is RED; with all
  KPIs at or below the thresholds the row is AMBER under the outlier flag and GREEN under
  the normal flag.
\<close>

theorem determine_severity_scored:
  assumes "map_of row ''Energy_kWh'' = Some (Num e)"
      and "map_of row ''Energy_per_kg'' = Some (Num p)"
      and "map_of row ''Yield_loss_pct'' = Some (Num y)"
      and "map_of row ''CO2_per_kg'' = Some (Num c)"
  shows "determine_severity row =
           Inr (if 1500 < e \<or> 15 < p \<or> 10 < y \<or> 6.0 < c then ''RED''
                else if map_of row ''anomaly_flag'' = Some (Num (- 1)) then ''AMBER''
                else ''GREEN'')
       \<and> (e = 1600 \<and> p \<le> 15 \<and> y \<le> 10 \<and> c \<le> 6.0 \<longrightarrow> determine_severity row = Inr ''RED'')
       \<and> (e \<le> 1500 \<and> p \<le> 15 \<and> y \<le> 10 \<and> c \<le> 6.0 \<and> map_of row ''anomaly_flag'' = Some (Num (- 1))
            \<longrightarrow> determine_severity row = Inr ''AMBER'')
       \<and> (e \<le> 1500 \<and> p \<le> 15 \<and> y \<le> 10 \<and> c \<le> 6.0 \<and> map_of row ''anomaly_flag'' = Some (Num 1)
            \<longrightarrow> determine_severity row = Inr ''GREEN'')"
  unfolding determine_severity_numeric [OF assms] by auto

theorem determine_severity_scored_witness:
  "determine_severity [(''Energy_kWh'', Num 1600), (''Energy_per_kg'', Num 15),
      (''Yield_loss_pct'', Num 10), (''CO2_per_kg'', Num 6), (''anomaly_flag'', Num 1)] = Inr ''RED''
   \<and> determine_severity [(''Energy_kWh'', Num 1500), (''Energy_per_kg'', Num 15),
      (''Yield_loss_pct'', Num 10), (''CO2_per_kg'', Num 6), (''anomaly_flag'', Num (- 1))] = Inr ''AMBER''
   \<and> determine_severity [(''Energy_kWh'', Num 1500), (''Energy_per_kg'', Num 15),
      (''Yield_loss_pct'', Num 10), (''CO2_per_kg'', Num 6), (''anomaly_flag'', Num 1)] = Inr ''GREEN''"
  using determine_severity_scored [of "[(''Energy_kWh'', Num 1600), (''Energy_per_kg'', Num 15),
      (''Yield_loss_pct'', Num 10), (''CO2_per_kg'', Num 6), (''anomaly_flag'', Num 1)]" 1600 15 10 6]
    determine_severity_scored [of "[(''Energy_kWh'', Num 1500), (''Energy_per_kg'', Num 15),
      (''Yield_loss_pct'', Num 10), (''CO2_per_kg'', Num 6), (''anomaly_flag'', Num (- 1))]" 1500 15 10 6]
    determine_severity_scored [of "[(''Energy_kWh'', Num 1500), (''Energy_per_kg'', Num 15),
      (''Yield_loss_pct'', Num 10), (''CO2_per_kg'', Num 6), (''anomaly_flag'', Num 1)]" 1500 15 10 6]
  by simp

text \<open>
  Claim C10. A KPI the row lacks is compared as the value 0: the row is classified as
  the row with that KPI set to 0. Hence an absent KPI never triggers RED by itself (a RED
  row has another KPI that holds a number above its threshold), and a row without any of
  the four KPIs that the model did not flag is GREEN.
\<close>

theorem absent_kpi_counts_as_zero:
  assumes "k \<in> {''Energy_kWh'', ''Energy_per_kg'', ''Yield_loss_pct'', ''CO2_per_kg''}"
      and "map_of row k = None"
  shows "determine_severity row = determine_severity ((k, Num 0) # row)
       \<and> (determine_severity row = Inr ''RED'' \<longrightarrow>
            (k \<noteq> ''Energy_kWh'' \<and> (\<exists>x. map_of row ''Energy_kWh'' = Some (Num x) \<and> 1500 < x))
          \<or> (k \<noteq> ''Energy_per_kg'' \<and> (\<exists>x. map_of row ''Energy_per_kg'' = Some (Num x) \<and> 15 < x))
          \<or> (k \<noteq> ''Yield_loss_pct'' \<and> (\<exists>x. map_of row ''Yield_loss_pct'' = Some (Num x) \<and> 10 < x))
          \<or> (k \<noteq> ''CO2_per_kg'' \<and> (\<exists>x. map_of row ''CO2_per_kg'' = Some (Num x) \<and> 6.0 < x)))
       \<and> (map_of row ''Energy_kWh'' = None \<and> map_of row ''Energy_per_kg'' = None
            \<and> map_of row ''Yield_loss_pct'' = None \<and> map_of row ''CO2_per_kg'' = None
            \<and> map_of row ''anomaly_flag'' \<noteq> Some (Num (- 1))
          \<longrightarrow> determine_severity row = Inr ''GREEN'')"
proof (intro conjI impI)
  have "get ((k, Num 0) # row) k' (Num 0) = get row k' (Num 0)" for k'
    using assms(2) by (simp add: get_def)
  moreover have "get ((k, Num 0) # row) ''anomaly_flag'' Null = get row ''anomaly_flag'' Null"
    using assms(1) by (auto simp: get_def)
  ultimately show "determine_severity row = determine_severity ((k, Num 0) # row)"
    by (simp add: determine_severity_def cong: sum.case_cong)
next
  assume red: "determine_severity row = Inr ''RED''"
  have hit: "k \<noteq> k' \<and> (\<exists>x. map_of row k' = Some (Num x) \<and> t < x)"
    if g: "gt (get row k' (Num 0)) t = Inr True" and t: "0 \<le> t" for k' t
  proof -
    from gt_True [OF g] obtain x where x: "get row k' (Num 0) = Num x" "t < x"
      by blast
    with t have "x \<noteq> 0"
      by simp
    from get_Num [OF x(1) this] have m: "map_of row k' = Some (Num x)" .
    with assms(2) have "k \<noteq> k'"
      by auto
    with m x(2) show ?thesis
      by blast
  qed
  from determine_severity_RED [OF red] show
     "(k \<noteq> ''Energy_kWh'' \<and> (\<exists>x. map_of row ''Energy_kWh'' = Some (Num x) \<and> 1500 < x))
          \<or> (k \<noteq> ''Energy_per_kg'' \<and> (\<exists>x. map_of row ''Energy_per_kg'' = Some (Num x) \<and> 15 < x))
          \<or> (k \<noteq> ''Yield_loss_pct'' \<and> (\<exists>x. map_of row ''Yield_loss_pct'' = Some (Num x) \<and> 10 < x))
          \<or> (k \<noteq> ''CO2_per_kg'' \<and> (\<exists>x. map_of row ''CO2_per_kg'' = Some (Num x) \<and> 6.0 < x))"
    using hit [of "''Energy_kWh''" 1500] hit [of "''Energy_per_kg''" 15]
      hit [of "''Yield_loss_pct''" 10] hit [of "''CO2_per_kg''" "6.0"]
    by fastforce
next
  assume "map_of row ''Energy_kWh'' = None \<and> map_of row ''Energy_per_kg'' = None
            \<and> map_of row ''Yield_loss_pct'' = None \<and> map_of row ''CO2_per_kg'' = None
            \<and> map_of row ''anomaly_flag'' \<noteq> Some (Num (- 1))"
  then show "determine_severity row = Inr ''GREEN''"
    by (simp add: determine_severity_def gt_get_absent) (auto simp: get_def split: option.splits)
qed

theorem absent_kpi_counts_as_zero_witness:
  "determine_severity [(''batchid'', Str ''B1''), (''anomaly_flag'', Num 1)]
     = determine_severity [(''CO2_per_kg'', Num 0), (''batchid'', Str ''B1''), (''anomaly_flag'', Num 1)]
   \<and> determine_severity [(''batchid'', Str ''B1''), (''anomaly_flag'', Num 1)] = Inr ''GREEN''"
proof -
  let ?row = "[(''batchid'', Str ''B1''), (''anomaly_flag'', Num 1)]"
  have k: "''CO2_per_kg'' \<in> {''Energy_kWh'', ''Energy_per_kg'', ''Yield_loss_pct'', ''CO2_per_kg''}"
    by simp
  have m: "map_of ?row ''CO2_per_kg'' = None"
    by simp
  note w = absent_kpi_counts_as_zero [OF k m]
  have absent: "map_of ?row ''Energy_kWh'' = None \<and> map_of ?row ''Energy_per_kg'' = None
            \<and> map_of ?row ''Yield_loss_pct'' = None \<and> map_of ?row ''CO2_per_kg'' = None
            \<and> map_of ?row ''anomaly_flag'' \<noteq> Some (Num (- 1))"
    by simp
  from w absent show ?thesis
    by blast
qed

section \<open>Properties of the scoring run\<close>

lemma map_of_assign: "map_of (assign k v row) = (map_of row)(k \<mapsto> v)"
  by (induction row) auto

lemma get_assign: "get (assign k v row) k' d = (if k' = k then v else get row k' d)"
  by (simp add: get_def map_of_assign)

lemma determine_severity_assign_severity:
  "determine_severity (assign ''severity'' v row) = determine_severity row"
  by (simp add: determine_severity_def get_assign cong: sum.case_cong)

lemma sequence_Inr:
  "sequence xs = Inr vs \<Longrightarrow> xs = map Inr vs"
  by (induction xs arbitrary: vs) (auto split: sum.splits)

lemma sequence_map_Inr: "sequence (map Inr vs) = Inr vs"
  by (induction vs) auto

lemma sequence_Inl:
  "sequence xs = Inl e \<Longrightarrow> Inl e \<in> set xs"
  by (induction xs) (auto split: sum.splits)

lemma run_updates_ok:
  assumes "\<forall>st \<in> set (update_statements tname updates). \<not> rejects s st"
  shows "run_updates tname updates s = (None, s\<lparr>pending := pending s @ update_statements tname updates\<rparr>)"
  using assms
proof (induction updates arbitrary: s)
  case Nil
  then show ?case by (simp add: update_statements_def)
next
  case (Cons u updates)
  obtain sev ids where u: "u = (sev, ids)" by (cases u)
  show ?case
  proof (cases "ids = []")
    case True
    with Cons u show ?thesis by (simp add: update_statements_def)
  next
    case False
    let ?s' = "s\<lparr>pending := pending s @ [Sql (update_sql tname sev ids)]\<rparr>"
    from Cons.prems u False have ok: "\<not> rejects s (Sql (update_sql tname sev ids))"
      and rest: "\<forall>st \<in> set (update_statements tname updates). \<not> rejects ?s' st"
      by (auto simp: update_statements_def)
    from Cons.IH [OF rest] ok u False show ?thesis
      by (simp add: exec_def update_statements_def)
  qed
qed

lemma run_updates_shape:
  "\<exists>p. snd (run_updates tname updates s) = s\<lparr>pending := p\<rparr>"
proof (induction updates arbitrary: s)
  case Nil
  have "s = s\<lparr>pending := pending s\<rparr>" by simp
  then show ?case by (metis run_updates.simps(1) snd_conv)
next
  case (Cons u updates)
  obtain sev ids where u: "u = (sev, ids)" by (cases u)
  show ?case
  proof (cases "ids \<noteq> [] \<and> \<not> rejects s (Sql (update_sql tname sev ids))")
    case True
    from Cons [of "s\<lparr>pending := pending s @ [Sql (update_sql tname sev ids)]\<rparr>"]
    obtain p where "snd (run_updates tname updates (s\<lparr>pending := pending s @ [Sql (update_sql tname sev ids)]\<rparr>))
       = s\<lparr>pending := p\<rparr>" by auto
    with True u show ?thesis by (auto simp: exec_def)
  next
    case False
    have "s = s\<lparr>pending := pending s\<rparr>" by simp
    with False u Cons [of s] show ?thesis
      by (cases "ids = []") (auto simp: exec_def intro: exI [of _ "pending s"])
  qed
qed

lemma add_entries_ok:
  "sequence (map (make_entry E tname) rs) = Inr entries \<Longrightarrow>
   add_entries E tname rs s = (None, s\<lparr>pending := pending s @ map Add entries\<rparr>)"
proof (induction rs arbitrary: s entries)
  case Nil
  then show ?case by simp
next
  case (Cons r rs)
  then show ?case
    by (auto simp: add_def split: sum.splits)
qed

lemma add_entries_fail:
  "sequence (map (make_entry E tname) rs) = Inl e \<Longrightarrow>
   \<exists>p. add_entries E tname rs s = (Some e, s\<lparr>pending := p\<rparr>)"
proof (induction rs arbitrary: s)
  case Nil
  then show ?case by simp
next
  case (Cons r rs)
  show ?case
  proof (cases "make_entry E tname r")
    case (Inl e')
    have "s = s\<lparr>pending := pending s\<rparr>" by simp
    with Inl Cons.prems show ?thesis
      by (auto intro: exI [of _ "pending s"])
  next
    case (Inr entry)
    with Cons.prems have "sequence (map (make_entry E tname) rs) = Inl e"
      by (auto split: sum.splits)
    from Cons.IH [OF this, of "add s entry"] Inr show ?thesis
      by (auto simp: add_def)
  qed
qed

lemma persist_history_eq:
  assumes "pending s = []"
  shows "persist_history E tname df_valid s =
     s\<lparr>committed := committed s @ history_statements E tname (anomalies df_valid) s,
       pending := []\<rparr>"
proof -
  let ?an = "anomalies df_valid"
  show ?thesis
  proof (cases "sequence (map (make_entry E tname) ?an)")
    case (Inl e)
    from add_entries_fail [OF Inl, of s] obtain p where
      "add_entries E tname ?an s = (Some e, s\<lparr>pending := p\<rparr>)" by blast
    with Inl assms show ?thesis
      by (simp add: persist_history_def history_statements_def rollback_def)
  next
    case (Inr entries)
    from add_entries_ok [OF Inr, of s] assms Inr show ?thesis
      by (simp add: persist_history_def history_statements_def rollback_def commit_def)
  qed
qed

lemma write_back_ok:
  assumes "\<forall>st \<in> set (update_statements tname updates). \<not> rejects s st"
      and "\<not> commit_fails s (pending s @ update_statements tname updates)"
      and "updates = collect_updates (py_str E) df_valid [(''RED'', []), (''AMBER'', []), (''GREEN'', [])]"
  shows "write_back E tname df_valid s =
     ([(''status'', JStr ''success''),
       (''anomalies'', JInt (length (ids_of updates ''RED'') + length (ids_of updates ''AMBER''))),
       (''details'', JDict (map (\<lambda>(k, v). (k, length v)) updates))],
      s\<lparr>committed := committed s @ pending s @ update_statements tname updates
            @ history_statements E tname (anomalies df_valid) s,
        pending := []\<rparr>)"
proof -
  let ?s1 = "s\<lparr>pending := pending s @ update_statements tname updates\<rparr>"
  let ?s2 = "?s1\<lparr>committed := committed ?s1 @ pending ?s1, pending := []\<rparr>"
  have r: "run_updates tname updates s = (None, ?s1)"
    using assms(1) by (rule run_updates_ok)
  have c: "commit ?s1 = Inr ?s2"
    using assms(2) by (simp add: commit_def)
  have h: "history_statements E tname an ?s2 = history_statements E tname an s" for an
    by (simp add: history_statements_def split: sum.splits)
  have p: "pending ?s2 = []"
    by simp
  from assms(3) have u: "collect_updates (py_str E) df_valid [(''RED'', []), (''AMBER'', []), (''GREEN'', [])] = updates"
    by simp
  have w: "write_back E tname df_valid s =
     ([(''status'', JStr ''success''),
       (''anomalies'', JInt (length (ids_of updates ''RED'') + length (ids_of updates ''AMBER''))),
       (''details'', JDict (map (\<lambda>(k, v). (k, length v)) updates))],
      persist_history E tname df_valid ?s2)"
    by (simp add: write_back_def Let_def u r c)
  have "persist_history E tname df_valid ?s2 =
      s\<lparr>committed := committed s @ pending s @ update_statements tname updates
            @ history_statements E tname (anomalies df_valid) s,
        pending := []\<rparr>"
    unfolding persist_history_eq [OF p] h by simp
  with w show ?thesis
    by simp
qed

lemma write_back_error:
  assumes "write_back E tname df_valid s = (r, s')" and "map_of r ''status'' \<noteq> Some (JStr ''success'')"
  shows "s' = rollback s"
proof -
  let ?u = "collect_updates (py_str E) df_valid [(''RED'', []), (''AMBER'', []), (''GREEN'', [])]"
  from run_updates_shape [of tname ?u s] obtain p where
    p: "snd (run_updates tname ?u s) = s\<lparr>pending := p\<rparr>" by blast
  obtain x where x: "run_updates tname ?u s = (x, s\<lparr>pending := p\<rparr>)"
    using p by (cases "run_updates tname ?u s") auto
  from assms show ?thesis
    unfolding write_back_def Let_def x
    by (auto simp: rollback_def commit_def split: option.splits if_splits)
qed

lemma detect_and_update_scored:
  assumes "model svc = Some m" and "tables s tname = Some df" and "rows df \<noteq> []"
      and "calculate_features E df = Inr df_calc"
      and "set required_features \<subseteq> set (columns df_calc)"
      and "\<not> list_ex (\<lambda>row. list_ex is_object (features_of row)) (rows df_calc)"
  shows "detect_and_update E svc tname s =
     (let valid = filter valid_mask (rows df_calc) in
      if valid = [] then (Inr [(''status'', JStr ''skipped''), (''reason'', JStr ''no_valid_data_rows'')], s)
      else (case score_rows svc m valid of
              Inl e \<Rightarrow> (Inl e, s)
            | Inr df_valid \<Rightarrow> (case write_back E tname df_valid s of (r, s') \<Rightarrow> (Inr r, s'))))"
proof -
  from assms(5) have "filter (\<lambda>col. col \<notin> set (columns df_calc)) required_features = []"
    by (auto simp: filter_empty_conv)
  with assms show ?thesis
    by (simp add: detect_and_update_def Let_def)
qed

lemma valid_mask_iff:
  "valid_mask row \<longleftrightarrow> (\<forall>col \<in> set required_features. get row col NaN \<noteq> NaN)"
  by (force simp: valid_mask_def features_of_def list_ex_iff)

lemma make_entry_without_nan_rows: "make_entry (without_nan_rows E) = make_entry E"
proof (intro ext)
  fix tname row
  have t: "entry_timestamp (without_nan_rows E) row = entry_timestamp E row"
    by (simp add: entry_timestamp_def without_nan_rows_def cong: option.case_cong)
  have p: "py_str (without_nan_rows E) = py_str E"
    by (simp add: without_nan_rows_def)
  show "make_entry (without_nan_rows E) tname row = make_entry E tname row"
    by (simp add: make_entry_def t p cong: sum.case_cong)
qed

lemma add_entries_without_nan_rows:
  "add_entries (without_nan_rows E) tname rs s = add_entries E tname rs s"
  by (induction rs arbitrary: s) (simp_all add: make_entry_without_nan_rows split: sum.splits)

lemma write_back_without_nan_rows:
  "write_back (without_nan_rows E) tname df_valid s = write_back E tname df_valid s"
proof -
  have "persist_history (without_nan_rows E) tname df_valid s' = persist_history E tname df_valid s'" for s'
    by (simp add: persist_history_def add_entries_without_nan_rows)
  moreover have "py_str (without_nan_rows E) = py_str E"
    by (simp add: without_nan_rows_def)
  ultimately show ?thesis
    by (simp add: write_back_def Let_def cong: prod.case_cong option.case_cong sum.case_cong)
qed

lemma drop_nan_rows_simps:
  "columns (drop_nan_rows d) = columns d"
  "rows (drop_nan_rows d) = filter valid_mask (rows d)"
  by (simp_all add: drop_nan_rows_def valid_mask_iff [abs_def])

lemma nan_rows_no_influence:
  "detect_and_update E svc tname s = (Inl TypeError, s)
   \<or> detect_and_update E svc tname s = detect_and_update (without_nan_rows E) svc tname s"
proof (cases "model svc")
  case None
  then show ?thesis by (simp add: detect_and_update_def)
next
  case (Some m)
  show ?thesis
  proof (cases "tables s tname")
    case None
    with Some show ?thesis by (simp add: detect_and_update_def)
  next
    case df: (Some df)
    show ?thesis
    proof (cases "rows df = []")
      case True
      with Some df show ?thesis by (simp add: detect_and_update_def)
    next
      case nonempty: False
      show ?thesis
      proof (cases "calculate_features E df")
        case (Inl e)
        then have "calculate_features (without_nan_rows E) df = Inl e"
          by (simp add: without_nan_rows_def)
        with Inl Some df nonempty show ?thesis by (simp add: detect_and_update_def)
      next
        case (Inr df_calc)
        then have calc': "calculate_features (without_nan_rows E) df = Inr (drop_nan_rows df_calc)"
          by (simp add: without_nan_rows_def)
        show ?thesis
        proof (cases "set required_features \<subseteq> set (columns df_calc)")
          case False
          then have "filter (\<lambda>col. col \<notin> set (columns df_calc)) required_features \<noteq> []"
            by (auto simp: filter_empty_conv)
          with Some df nonempty Inr calc' show ?thesis
            by (simp add: detect_and_update_def drop_nan_rows_simps)
        next
          case cols: True
          show ?thesis
          proof (cases "list_ex (\<lambda>row. list_ex is_object (features_of row)) (rows df_calc)")
            case True
            from cols have "filter (\<lambda>col. col \<notin> set (columns df_calc)) required_features = []"
              by (auto simp: filter_empty_conv)
            with True Some df nonempty Inr show ?thesis
              by (simp add: detect_and_update_def)
          next
            case False
            then have obj': "\<not> list_ex (\<lambda>row. list_ex is_object (features_of row)) (rows (drop_nan_rows df_calc))"
              by (auto simp: list_ex_iff drop_nan_rows_simps)
            from cols have cols': "set required_features \<subseteq> set (columns (drop_nan_rows df_calc))"
              by (simp add: drop_nan_rows_simps)
            have "detect_and_update E svc tname s = detect_and_update (without_nan_rows E) svc tname s"
              unfolding detect_and_update_scored [OF Some df nonempty Inr cols False]
                detect_and_update_scored [OF Some df nonempty calc' cols' obj']
              by (simp add: Let_def drop_nan_rows_simps write_back_without_nan_rows cong: sum.case_cong)
            then show ?thesis ..
          qed
        qed
      qed
    qed
  qed
qed

lemma assign_length_zip:
  "length (map (\<lambda>(row, v). assign k (f v) row) (zip rs vs)) = min (length rs) (length vs)"
  by simp

lemma score_rows_Inr:
  assumes "score_rows svc m valid = Inr df_valid"
  shows "length df_valid = length valid
       \<and> (\<forall>row \<in> set df_valid. \<exists>sev. determine_severity row = Inr sev \<and> get row ''severity'' Null = Str sev)"
proof -
  define fs where "fs = (case scaler svc of Some transform \<Rightarrow> transform (map features_of valid) | None \<Rightarrow> map features_of valid)"
  define flags where "flags = map (\<lambda>p. Num (of_int p)) (predict m fs)"
  define d1 where "d1 = map (\<lambda>(row, flag). assign ''anomaly_flag'' flag row) (zip valid flags)"
  define scores where "scores = (case decision_function m fs of
                   Some sc \<Rightarrow> if length sc = length valid then map Num sc else flags
                 | None \<Rightarrow> flags)"
  define d2 where "d2 = map (\<lambda>(row, score). assign ''anomaly_score'' score row) (zip d1 scores)"
  have unf: "score_rows svc m valid =
     (if length (predict m fs) \<noteq> length valid then Inl ValueError
      else (case sequence (map determine_severity d2) of
                Inl e \<Rightarrow> Inl e
              | Inr severities \<Rightarrow>
                  Inr (map (\<lambda>(row, sev). assign ''severity'' (Str sev) row) (zip d2 severities))))"
    unfolding score_rows_def Let_def fs_def flags_def d1_def scores_def d2_def ..
  from assms have len: "length (predict m fs) = length valid"
    unfolding unf by (simp split: if_splits)
  from assms len obtain severities where
    sev: "sequence (map determine_severity d2) = Inr severities"
    and out: "df_valid = map (\<lambda>(row, sev). assign ''severity'' (Str sev) row) (zip d2 severities)"
    unfolding unf by (auto split: sum.splits)
  from sequence_Inr [OF sev] have m: "map determine_severity d2 = map Inr severities" .
  then have ls: "length severities = length d2"
    by (metis length_map)
  have lf: "length flags = length valid"
    using len by (simp add: flags_def)
  have lsc: "length scores = length valid"
    using lf by (simp add: scores_def split: option.splits)
  have l2: "length d2 = length valid"
    using lf lsc by (simp add: d2_def d1_def)
  have "length df_valid = length valid"
    unfolding out using ls l2 by simp
  moreover have "\<exists>sev. determine_severity row = Inr sev \<and> get row ''severity'' Null = Str sev"
    if "row \<in> set df_valid" for row
  proof -
    from that obtain r2 sv where rs: "(r2, sv) \<in> set (zip d2 severities)"
      and row: "row = assign ''severity'' (Str sv) r2"
      unfolding out by auto
    from rs obtain i where i: "i < length d2" "d2 ! i = r2" "severities ! i = sv"
      using ls by (auto simp: in_set_zip)
    from m have "map determine_severity d2 ! i = map Inr severities ! i"
      by simp
    with i ls have "determine_severity r2 = Inr sv"
      by simp
    with row show ?thesis
      by (simp add: determine_severity_assign_severity get_assign)
  qed
  ultimately show ?thesis
    by blast
qed

text \<open>
  Claim C5. A row with NaN under one of the six required features is left out before
  scoring and gets no severity: the run (result, statements sent, statements committed)
  is the run on the frame without those rows, unless the feature matrix holds a
  non-numeric object and \<open>np.isnan\<close> raises, in which case nothing is written at all. When
  every row of a numeric feature frame has such a NaN, the call returns
  \<open>skipped\<close> / \<open>no_valid_data_rows\<close> and leaves the session as it was.
\<close>

theorem nan_rows_are_not_scored:
  "(model svc = Some m \<and> tables s tname = Some df \<and> rows df \<noteq> []
      \<and> calculate_features E df = Inr df_calc
      \<and> set required_features \<subseteq> set (columns df_calc)
      \<and> (\<forall>row \<in> set (rows df_calc). \<forall>col \<in> set required_features. \<not> is_object (get row col NaN))
      \<and> (\<forall>row \<in> set (rows df_calc). \<exists>col \<in> set required_features. get row col NaN = NaN)
    \<longrightarrow> detect_and_update E svc tname s =
          (Inr [(''status'', JStr ''skipped''), (''reason'', JStr ''no_valid_data_rows'')], s))
   \<and> (detect_and_update E svc tname s = (Inl TypeError, s)
      \<or> detect_and_update E svc tname s = detect_and_update (without_nan_rows E) svc tname s)"
proof (intro conjI impI)
  assume a: "model svc = Some m \<and> tables s tname = Some df \<and> rows df \<noteq> []
      \<and> calculate_features E df = Inr df_calc
      \<and> set required_features \<subseteq> set (columns df_calc)
      \<and> (\<forall>row \<in> set (rows df_calc). \<forall>col \<in> set required_features. \<not> is_object (get row col NaN))
      \<and> (\<forall>row \<in> set (rows df_calc). \<exists>col \<in> set required_features. get row col NaN = NaN)"
  then have obj: "\<not> list_ex (\<lambda>row. list_ex is_object (features_of row)) (rows df_calc)"
    by (auto simp: list_ex_iff features_of_def)
  from a have "filter valid_mask (rows df_calc) = []"
    by (auto simp: filter_empty_conv valid_mask_iff)
  with a detect_and_update_scored [of svc m s tname df E df_calc, OF _ _ _ _ _ obj]
  show "detect_and_update E svc tname s =
          (Inr [(''status'', JStr ''skipped''), (''reason'', JStr ''no_valid_data_rows'')], s)"
    by simp
next
  show "detect_and_update E svc tname s = (Inl TypeError, s)
      \<or> detect_and_update E svc tname s = detect_and_update (without_nan_rows E) svc tname s"
    by (rule nan_rows_no_influence)
qed

theorem nan_rows_are_not_scored_witness:
  "detect_and_update sample_env sample_service ''nans'' sample_db =
     (Inr [(''status'', JStr ''skipped''), (''reason'', JStr ''no_valid_data_rows'')], sample_db)"
proof -
  have "model sample_service = Some sample_model \<and> tables sample_db ''nans'' = Some nan_frame
      \<and> rows nan_frame \<noteq> []
      \<and> calculate_features sample_env nan_frame = Inr nan_frame
      \<and> set required_features \<subseteq> set (columns nan_frame)
      \<and> (\<forall>row \<in> set (rows nan_frame). \<forall>col \<in> set required_features. \<not> is_object (get row col NaN))
      \<and> (\<forall>row \<in> set (rows nan_frame). \<exists>col \<in> set required_features. get row col NaN = NaN)"
    by (simp add: sample_service_def sample_db_def nan_frame_def sample_frame_def sample_env_def
        required_features_def get_def is_object_def)
  with nan_rows_are_not_scored [where svc = sample_service and m = sample_model and s = sample_db
      and tname = "''nans''" and df = nan_frame and E = sample_env and df_calc = nan_frame]
  show ?thesis
    by blast
qed

lemma anomalies_iff:
  "row \<in> set (anomalies df_valid) \<longleftrightarrow>
     row \<in> set df_valid \<and> (get row ''severity'' Null = Str ''RED'' \<or> get row ''severity'' Null = Str ''AMBER'')"
  by (auto simp: anomalies_def)

lemma make_entry_severity:
  "make_entry E tname row = Inr entry \<Longrightarrow> severity entry = get row ''severity'' (Str ''AMBER'')"
  by (auto simp: make_entry_def split: sum.splits)

lemma get_default: "get row k d = Str x \<Longrightarrow> get row k d' = Str x \<or> d = Str x"
  by (auto simp: get_def split: option.splits)

text \<open>
  Claim C6. When the updates of \<open>anomaly_alert\<close> are sent and committed, the run answers
  \<open>success\<close> whatever happens to the history; what is committed is the updates followed by
  the history statements. The history holds exactly one object per scored row classified
  RED or AMBER, in order, and none for a GREEN row; when building an object raises or the
  second commit fails, the history write alone is rolled back and the committed updates
  stay.
\<close>

theorem history_only_for_red_amber:
  assumes "model svc = Some m" and "tables s tname = Some df" and "rows df \<noteq> []"
      and "calculate_features E df = Inr df_calc"
      and "set required_features \<subseteq> set (columns df_calc)"
      and "\<forall>row \<in> set (rows df_calc). \<forall>col \<in> set required_features. \<not> is_object (get row col NaN)"
      and "score_rows svc m (filter valid_mask (rows df_calc)) = Inr df_valid" and "df_valid \<noteq> []"
      and "updates = collect_updates (py_str E) df_valid [(''RED'', []), (''AMBER'', []), (''GREEN'', [])]"
      and "\<forall>st \<in> set (update_statements tname updates). \<not> rejects s st"
      and "\<not> commit_fails s (pending s @ update_statements tname updates)"
  shows "fst (detect_and_update E svc tname s) =
           Inr [(''status'', JStr ''success''),
                (''anomalies'', JInt (length (ids_of updates ''RED'') + length (ids_of updates ''AMBER''))),
                (''details'', JDict (map (\<lambda>(k, v). (k, length v)) updates))]
       \<and> pending (snd (detect_and_update E svc tname s)) = []
       \<and> committed (snd (detect_and_update E svc tname s)) =
           committed s @ pending s @ update_statements tname updates
             @ history_statements E tname (anomalies df_valid) s
       \<and> (\<forall>row \<in> set df_valid. \<exists>sev. determine_severity row = Inr sev
             \<and> (row \<in> set (anomalies df_valid) \<longleftrightarrow> sev = ''RED'' \<or> sev = ''AMBER''))
       \<and> (\<forall>entries. sequence (map (make_entry E tname) (anomalies df_valid)) = Inr entries
             \<and> \<not> commit_fails s (map Add entries) \<longrightarrow>
              history_statements E tname (anomalies df_valid) s = map Add entries
            \<and> map (make_entry E tname) (anomalies df_valid) = map Inr entries
            \<and> (\<forall>entry \<in> set entries. severity entry = Str ''RED'' \<or> severity entry = Str ''AMBER''))
       \<and> ((\<exists>e. sequence (map (make_entry E tname) (anomalies df_valid)) = Inl e)
            \<or> (\<exists>entries. sequence (map (make_entry E tname) (anomalies df_valid)) = Inr entries
                  \<and> commit_fails s (map Add entries)) \<longrightarrow>
           committed (snd (detect_and_update E svc tname s)) =
             committed s @ pending s @ update_statements tname updates)"
proof -
  from assms(6) have obj: "\<not> list_ex (\<lambda>row. list_ex is_object (features_of row)) (rows df_calc)"
    by (auto simp: list_ex_iff features_of_def)
  from score_rows_Inr [OF assms(7)] assms(8) have valid: "filter valid_mask (rows df_calc) \<noteq> []"
    by auto
  have run: "detect_and_update E svc tname s =
     (Inr [(''status'', JStr ''success''),
                (''anomalies'', JInt (length (ids_of updates ''RED'') + length (ids_of updates ''AMBER''))),
                (''details'', JDict (map (\<lambda>(k, v). (k, length v)) updates))],
      s\<lparr>committed := committed s @ pending s @ update_statements tname updates
            @ history_statements E tname (anomalies df_valid) s,
        pending := []\<rparr>)"
    unfolding detect_and_update_scored [OF assms(1-5) obj]
    using valid assms(7) write_back_ok [OF assms(10,11,9)]
    by (simp add: Let_def)
  have cls: "\<forall>row \<in> set df_valid. \<exists>sev. determine_severity row = Inr sev
             \<and> (row \<in> set (anomalies df_valid) \<longleftrightarrow> sev = ''RED'' \<or> sev = ''AMBER'')"
  proof
    fix row assume r: "row \<in> set df_valid"
    with score_rows_Inr [OF assms(7)] obtain sev where
      "determine_severity row = Inr sev" "get row ''severity'' Null = Str sev"
      by blast
    with r show "\<exists>sev. determine_severity row = Inr sev
             \<and> (row \<in> set (anomalies df_valid) \<longleftrightarrow> sev = ''RED'' \<or> sev = ''AMBER'')"
      by (auto simp: anomalies_iff)
  qed
  have ok: "history_statements E tname (anomalies df_valid) s = map Add entries
            \<and> map (make_entry E tname) (anomalies df_valid) = map Inr entries
            \<and> (\<forall>entry \<in> set entries. severity entry = Str ''RED'' \<or> severity entry = Str ''AMBER'')"
    if sq: "sequence (map (make_entry E tname) (anomalies df_valid)) = Inr entries"
      and cf: "\<not> commit_fails s (map Add entries)" for entries
  proof (intro conjI ballI)
    from sq cf show "history_statements E tname (anomalies df_valid) s = map Add entries"
      by (simp add: history_statements_def)
    from sequence_Inr [OF sq] show m: "map (make_entry E tname) (anomalies df_valid) = map Inr entries" .
    fix entry assume "entry \<in> set entries"
    then have "Inr entry \<in> set (map (make_entry E tname) (anomalies df_valid))"
      unfolding m by simp
    then obtain row where row: "row \<in> set (anomalies df_valid)" "make_entry E tname row = Inr entry"
      by auto
    from make_entry_severity [OF row(2)] row(1)
    show "severity entry = Str ''RED'' \<or> severity entry = Str ''AMBER''"
      by (auto simp: anomalies_iff get_def split: option.splits)
  qed
  have bad: "committed (snd (detect_and_update E svc tname s)) =
             committed s @ pending s @ update_statements tname updates"
    if "(\<exists>e. sequence (map (make_entry E tname) (anomalies df_valid)) = Inl e)
            \<or> (\<exists>entries. sequence (map (make_entry E tname) (anomalies df_valid)) = Inr entries
                  \<and> commit_fails s (map Add entries))"
    using that unfolding run by (auto simp: history_statements_def)
  from run cls ok bad show ?thesis
    by simp
qed

theorem history_only_for_red_amber_witness:
  "committed (snd (detect_and_update sample_env sample_service ''batches'' sample_db)) =
     [Sql (update_sql ''batches'' ''RED'' [''1'']), Sql (update_sql ''batches'' ''GREEN'' [''3'']),
      Add sample_entry]
   \<and> committed (snd (detect_and_update sample_env sample_service ''batches'' history_failing_db)) =
     [Sql (update_sql ''batches'' ''RED'' [''1'']), Sql (update_sql ''batches'' ''GREEN'' [''3''])]"
proof -
  let ?updates = "collect_updates (py_str sample_env) sample_scored [(''RED'', []), (''AMBER'', []), (''GREEN'', [])]"
  have u: "update_statements ''batches'' ?updates =
      [Sql (update_sql ''batches'' ''RED'' [''1'']), Sql (update_sql ''batches'' ''GREEN'' [''3''])]"
    by code_simp
  have h1: "model sample_service = Some sample_model"
    by (simp add: sample_service_def)
  have h3: "rows sample_frame \<noteq> []"
    by (simp add: sample_frame_def)
  have h4: "calculate_features sample_env sample_frame = Inr sample_frame"
    by (simp add: sample_env_def)
  have h5: "set required_features \<subseteq> set (columns sample_frame)"
    by (simp add: sample_frame_def required_features_def)
  have h6: "\<forall>row \<in> set (rows sample_frame). \<forall>col \<in> set required_features. \<not> is_object (get row col NaN)"
    by (simp add: sample_frame_def required_features_def get_def is_object_def)
  have h7: "score_rows sample_service sample_model (filter valid_mask (rows sample_frame)) = Inr sample_scored"
    by code_simp
  have h8: "sample_scored \<noteq> []"
    by (simp add: sample_scored_def)
  have ok: "history_statements sample_env ''batches'' (anomalies sample_scored) sample_db = [Add sample_entry]"
    by code_simp
  have bad: "history_statements sample_env ''batches'' (anomalies sample_scored) history_failing_db = []"
    by code_simp
  have a: "committed (snd (detect_and_update sample_env sample_service ''batches'' sample_db)) =
     [Sql (update_sql ''batches'' ''RED'' [''1'']), Sql (update_sql ''batches'' ''GREEN'' [''3'']),
      Add sample_entry]"
  proof -
    have h2: "tables sample_db ''batches'' = Some sample_frame"
      by (simp add: sample_db_def)
    have h10: "\<forall>st \<in> set (update_statements ''batches'' ?updates). \<not> rejects sample_db st"
      by (simp add: sample_db_def)
    have h11: "\<not> commit_fails sample_db (pending sample_db @ update_statements ''batches'' ?updates)"
      by (simp add: sample_db_def)
    from history_only_for_red_amber [OF h1 h2 h3 h4 h5 h6 h7 h8 refl h10 h11]
    have "committed (snd (detect_and_update sample_env sample_service ''batches'' sample_db)) =
           committed sample_db @ pending sample_db @ update_statements ''batches'' ?updates
             @ history_statements sample_env ''batches'' (anomalies sample_scored) sample_db"
      by blast
    then show ?thesis
      unfolding u ok by (simp add: sample_db_def)
  qed
  have b: "committed (snd (detect_and_update sample_env sample_service ''batches'' history_failing_db)) =
     [Sql (update_sql ''batches'' ''RED'' [''1'']), Sql (update_sql ''batches'' ''GREEN'' [''3''])]"
  proof -
    have h2: "tables history_failing_db ''batches'' = Some sample_frame"
      by (simp add: sample_db_def history_failing_db_def)
    have h10: "\<forall>st \<in> set (update_statements ''batches'' ?updates). \<not> rejects history_failing_db st"
      by (simp add: sample_db_def history_failing_db_def)
    have h11: "\<not> commit_fails history_failing_db
        (pending history_failing_db @ update_statements ''batches'' ?updates)"
      unfolding u by (simp add: sample_db_def history_failing_db_def is_add_def)
    from history_only_for_red_amber [OF h1 h2 h3 h4 h5 h6 h7 h8 refl h10 h11]
    have "committed (snd (detect_and_update sample_env sample_service ''batches'' history_failing_db)) =
           committed history_failing_db @ pending history_failing_db @ update_statements ''batches'' ?updates
             @ history_statements sample_env ''batches'' (anomalies sample_scored) history_failing_db"
      by blast
    then show ?thesis
      unfolding u bad by (simp add: sample_db_def history_failing_db_def)
  qed
  from a b show ?thesis
    by blast
qed

lemma write_back_status:
  "write_back E tname df_valid s = (r, s') \<Longrightarrow> map_of r ''status'' \<noteq> Some (JStr ''skipped'')"
  by (auto simp: write_back_def Let_def split: prod.splits option.splits sum.splits)

text \<open>
  Claim C9. Skip conditions are answered with the status \<open>skipped\<close> and leave the session
  untouched: no model loaded gives the reason \<open>model_not_loaded\<close>, an empty table
  \<open>no_data\<close>, a required feature column missing from the computed frame
  \<open>missing_columns\<close> together with the list of the missing columns; and whenever the status
  is \<open>skipped\<close> the session is the one the call started with.
\<close>

theorem skip_conditions:
  "(model svc = None \<longrightarrow>
      detect_and_update E svc tname s =
        (Inr [(''status'', JStr ''skipped''), (''reason'', JStr ''model_not_loaded'')], s))
   \<and> (model svc = Some m \<and> tables s tname = Some df \<and> rows df = [] \<longrightarrow>
      detect_and_update E svc tname s =
        (Inr [(''status'', JStr ''skipped''), (''reason'', JStr ''no_data'')], s))
   \<and> (model svc = Some m \<and> tables s tname = Some df \<and> rows df \<noteq> []
        \<and> calculate_features E df = Inr df_calc
        \<and> (\<exists>col \<in> set required_features. col \<notin> set (columns df_calc)) \<longrightarrow>
      detect_and_update E svc tname s =
        (Inr [(''status'', JStr ''skipped''), (''reason'', JStr ''missing_columns''),
              (''missing'', JList (filter (\<lambda>col. col \<notin> set (columns df_calc)) required_features))], s))
   \<and> (\<forall>r s'. detect_and_update E svc tname s = (Inr r, s')
          \<and> map_of r ''status'' = Some (JStr ''skipped'') \<longrightarrow> s' = s)"
proof (intro conjI impI allI)
  assume "model svc = None"
  then show "detect_and_update E svc tname s =
        (Inr [(''status'', JStr ''skipped''), (''reason'', JStr ''model_not_loaded'')], s)"
    by (simp add: detect_and_update_def)
next
  assume "model svc = Some m \<and> tables s tname = Some df \<and> rows df = []"
  then show "detect_and_update E svc tname s =
        (Inr [(''status'', JStr ''skipped''), (''reason'', JStr ''no_data'')], s)"
    by (simp add: detect_and_update_def)
next
  assume a: "model svc = Some m \<and> tables s tname = Some df \<and> rows df \<noteq> []
        \<and> calculate_features E df = Inr df_calc
        \<and> (\<exists>col \<in> set required_features. col \<notin> set (columns df_calc))"
  then have "filter (\<lambda>col. col \<notin> set (columns df_calc)) required_features \<noteq> []"
    by (simp add: filter_empty_conv)
  with a show "detect_and_update E svc tname s =
        (Inr [(''status'', JStr ''skipped''), (''reason'', JStr ''missing_columns''),
              (''missing'', JList (filter (\<lambda>col. col \<notin> set (columns df_calc)) required_features))], s)"
    by (simp add: detect_and_update_def)
next
  fix r s'
  assume a: "detect_and_update E svc tname s = (Inr r, s') \<and> map_of r ''status'' = Some (JStr ''skipped'')"
  then show "s' = s"
    unfolding detect_and_update_def Let_def
    by (auto split: option.splits if_splits sum.splits prod.splits dest: write_back_status)
qed

theorem skip_conditions_witness:
  "detect_and_update sample_env unloaded_service ''batches'' sample_db =
     (Inr [(''status'', JStr ''skipped''), (''reason'', JStr ''model_not_loaded'')], sample_db)
   \<and> detect_and_update sample_env sample_service ''empty'' sample_db =
     (Inr [(''status'', JStr ''skipped''), (''reason'', JStr ''no_data'')], sample_db)
   \<and> detect_and_update sample_env sample_service ''raw'' sample_db =
     (Inr [(''status'', JStr ''skipped''), (''reason'', JStr ''missing_columns''),
           (''missing'', JList [''Energy_per_kg'', ''Yield_loss_pct'', ''RoomTemp_C'',
                                ''CO2_per_kg'', ''Energy_x_Temp''])], sample_db)"
proof -
  have a: "model unloaded_service = None"
    by (simp add: unloaded_service_def)
  have b: "model sample_service = Some sample_model \<and> tables sample_db ''empty'' = Some empty_frame
      \<and> rows empty_frame = []"
    by (simp add: sample_service_def sample_db_def empty_frame_def)
  have c: "model sample_service = Some sample_model \<and> tables sample_db ''raw'' = Some raw_frame
      \<and> rows raw_frame \<noteq> [] \<and> calculate_features sample_env raw_frame = Inr raw_frame
      \<and> (\<exists>col \<in> set required_features. col \<notin> set (columns raw_frame))"
    by (simp add: sample_service_def sample_db_def raw_frame_def sample_env_def required_features_def)
  have m: "filter (\<lambda>col. col \<notin> set (columns raw_frame)) required_features =
      [''Energy_per_kg'', ''Yield_loss_pct'', ''RoomTemp_C'', ''CO2_per_kg'', ''Energy_x_Temp'']"
    by (simp add: raw_frame_def required_features_def)
  from a skip_conditions [where svc = unloaded_service and E = sample_env and tname = "''batches''"
      and s = sample_db]
  have 1: "detect_and_update sample_env unloaded_service ''batches'' sample_db =
     (Inr [(''status'', JStr ''skipped''), (''reason'', JStr ''model_not_loaded'')], sample_db)"
    by blast
  from b skip_conditions [where svc = sample_service and E = sample_env and tname = "''empty''"
      and s = sample_db and m = sample_model and df = empty_frame]
  have 2: "detect_and_update sample_env sample_service ''empty'' sample_db =
     (Inr [(''status'', JStr ''skipped''), (''reason'', JStr ''no_data'')], sample_db)"
    by blast
  from c skip_conditions [where svc = sample_service and E = sample_env and tname = "''raw''"
      and s = sample_db and m = sample_model and df = raw_frame and df_calc = raw_frame]
  have "detect_and_update sample_env sample_service ''raw'' sample_db =
     (Inr [(''status'', JStr ''skipped''), (''reason'', JStr ''missing_columns''),
           (''missing'', JList (filter (\<lambda>col. col \<notin> set (columns raw_frame)) required_features))], sample_db)"
    by blast
  with 1 2 show ?thesis
    unfolding m by blast
qed

section \<open>Properties of the column and table names\<close>















lemma length_zero_pad [simp]: "length (zero_pad w n) = w"
  by (induction w arbitrary: n) auto


























section \<open>Properties of the type inference\<close>

lemma strip_Nil [simp]: "strip [] = []"
  by (simp add: strip_def strip_chars_def)

lemma clean_values_eq:
  "clean_values sample_values =
     filter (\<lambda>v. v \<notin> set ['''', ''NULL'', ''null'', ''None'']) (map strip sample_values)"
proof -
  have "(v \<noteq> [] \<and> strip v \<notin> set ['''', ''NULL'', ''null'', ''None''])
      = (strip v \<notin> set ['''', ''NULL'', ''null'', ''None''])" for v
    by (cases "v = []") simp_all
  then show ?thesis
    by (simp add: clean_values_def filter_map comp_def del: set_simps list.set)
qed

lemma infer_column_type_policy:
  "infer_column_type parse clock sample_values col_name = infer_policy parse clock col_name sample_values"
proof (cases "sample_values = []")
  case True
  then show ?thesis
    by (simp add: infer_column_type_def infer_policy_def)
next
  case False
  then show ?thesis
    unfolding infer_column_type_def infer_policy_def Let_def clean_values_eq list_all_iff
    by simp
qed

lemma infer_column_type_range:
  "infer_column_type parse clock sample_values col_name \<in> {''TIMESTAMP'', ''TEXT'', ''BOOLEAN'', ''FLOAT''}"
  by (simp add: infer_column_type_def Let_def)

lemma infer_column_type_content:
  assumes "\<not> (contains (lower col_name) ''date'' \<or> contains (lower col_name) ''time'')"
      and "clean_values sample_values = clean" and "clean \<noteq> []"
  shows "infer_column_type parse clock sample_values col_name =
     (if list_all (\<lambda>v. lower v \<in> set bool_values) clean then ''BOOLEAN''
      else if list_all py_float_ok clean then ''FLOAT''
      else if list_all (\<lambda>(i, v). parse (clock i) v) (enumerate 0 (take 5 clean)) then ''TIMESTAMP''
      else ''TEXT'')"
proof -
  from assms(2,3) have "sample_values \<noteq> []"
    by (auto simp: clean_values_def)
  with assms show ?thesis
    by (simp only: infer_column_type_def Let_def if_False if_True)
qed

lemma parse_calls_eq:
  "list_all (\<lambda>(i, v). parse (clock i) v) (enumerate 0 (take 5 clean))
     = (\<forall>i. i < 5 \<and> i < length clean \<longrightarrow> parse (clock i) (clean ! i))"
  by (auto simp: list_all_length nth_enumerate_eq)

lemma infer_column_type_before_parse:
  assumes "contains (lower col_name) ''date'' \<or> contains (lower col_name) ''time''
      \<or> clean_values sample_values = []
      \<or> list_all (\<lambda>v. lower v \<in> set bool_values) (clean_values sample_values)
      \<or> list_all py_float_ok (clean_values sample_values)"
  shows "infer_column_type parse clock sample_values col_name
       = infer_column_type parse' clock' sample_values col_name"
  using assms unfolding infer_column_type_def Let_def
  by auto

lemma infer_column_type_same_answers:
  assumes "\<forall>i. i < 5 \<and> i < length (clean_values sample_values) \<longrightarrow>
      parse (clock i) (clean_values sample_values ! i) = parse' (clock' i) (clean_values sample_values ! i)"
  shows "infer_column_type parse clock sample_values col_name
       = infer_column_type parse' clock' sample_values col_name"
  using assms unfolding infer_column_type_def Let_def parse_calls_eq
  by auto

text \<open>
  Claim C4 as stated fails in its first clause: the result is not a function of the
  column name and the samples alone. The date parse of the last step is
  \<open>dateutil.parser.parse\<close> without a default date, which completes a text from the current
  date. The column \<open>Due\<close> with the one sample \<open>31st\<close> infers TIMESTAMP while the clock stands
  in January and TEXT while it stands in April.
\<close>

theorem infer_column_type_clock_counterexample:
  "infer_column_type ordinal_day_parse january_clock [''31st''] ''Due'' = ''TIMESTAMP''
   \<and> infer_column_type ordinal_day_parse april_clock [''31st''] ''Due'' = ''TEXT''"
  by code_simp

text \<open>
  Claim C4, amended. \<open>infer_column_type\<close> follows the ordered policy: a name containing
  \<open>date\<close> or \<open>time\<close> in any case gives TIMESTAMP whatever the samples; otherwise, of the
  stripped samples without the empty and null markers, none left gives TEXT, all boolean
  literals BOOLEAN, all accepted by \<open>float\<close> FLOAT, the first five all accepted by the date
  parser TIMESTAMP, anything else TEXT; INTEGER is never returned. When the name, the
  empty remainder, the boolean literals or \<open>float\<close> decide, the result is the same under
  every date parser and every clock: it is a function of the name and the samples. In the
  date step it is determined by the name, the samples and the answers of the date parser
  on the first five remaining values, and those answers depend on the current date. The
  four examples of the claim hold, the last when the date parser rejects \<open>ok\<close> or \<open>n/a\<close>.
\<close>

theorem infer_column_type_first_match:
  "infer_column_type parse clock sample_values col_name = infer_policy parse clock col_name sample_values
   \<and> infer_column_type parse clock sample_values col_name \<noteq> ''INTEGER''
   \<and> (contains (lower col_name) ''date'' \<or> contains (lower col_name) ''time'' \<longrightarrow>
        infer_column_type parse clock sample_values col_name = ''TIMESTAMP'')
   \<and> (contains (lower col_name) ''date'' \<or> contains (lower col_name) ''time''
        \<or> clean_values sample_values = []
        \<or> list_all (\<lambda>v. lower v \<in> set bool_values) (clean_values sample_values)
        \<or> list_all py_float_ok (clean_values sample_values) \<longrightarrow>
        infer_column_type parse clock sample_values col_name
          = infer_column_type parse' clock' sample_values col_name)
   \<and> ((\<forall>i. i < 5 \<and> i < length (clean_values sample_values) \<longrightarrow>
          parse (clock i) (clean_values sample_values ! i)
            = parse' (clock' i) (clean_values sample_values ! i)) \<longrightarrow>
        infer_column_type parse clock sample_values col_name
          = infer_column_type parse' clock' sample_values col_name)
   \<and> infer_column_type parse clock [''2024-01-01'', ''2024-01-02''] ''BatchDate'' = ''TIMESTAMP''
   \<and> infer_column_type parse clock [''1'', ''2'', ''3''] ''Count'' = ''FLOAT''
   \<and> infer_column_type parse clock [''yes'', ''no'', ''yes''] ''Flag'' = ''BOOLEAN''
   \<and> (\<not> (parse (clock 0) ''ok'' \<and> parse (clock 1) ''n/a'') \<longrightarrow>
        infer_column_type parse clock [''ok'', ''n/a''] ''Notes'' = ''TEXT'')"
proof (intro conjI)
  show "infer_column_type parse clock sample_values col_name = infer_policy parse clock col_name sample_values"
    by (rule infer_column_type_policy)
  show "infer_column_type parse clock sample_values col_name \<noteq> ''INTEGER''"
    using infer_column_type_range [of parse clock sample_values col_name] by auto
  show "contains (lower col_name) ''date'' \<or> contains (lower col_name) ''time'' \<longrightarrow>
        infer_column_type parse clock sample_values col_name = ''TIMESTAMP''"
    by (simp add: infer_column_type_def Let_def)
  show "contains (lower col_name) ''date'' \<or> contains (lower col_name) ''time''
        \<or> clean_values sample_values = []
        \<or> list_all (\<lambda>v. lower v \<in> set bool_values) (clean_values sample_values)
        \<or> list_all py_float_ok (clean_values sample_values) \<longrightarrow>
        infer_column_type parse clock sample_values col_name
          = infer_column_type parse' clock' sample_values col_name"
    using infer_column_type_before_parse [of col_name sample_values parse clock parse' clock']
    by blast
  show "(\<forall>i. i < 5 \<and> i < length (clean_values sample_values) \<longrightarrow>
          parse (clock i) (clean_values sample_values ! i)
            = parse' (clock' i) (clean_values sample_values ! i)) \<longrightarrow>
        infer_column_type parse clock sample_values col_name
          = infer_column_type parse' clock' sample_values col_name"
    using infer_column_type_same_answers [of sample_values parse clock parse' clock' col_name]
    by blast
  have d: "contains (lower ''BatchDate'') ''date''"
    by code_simp
  then show "infer_column_type parse clock [''2024-01-01'', ''2024-01-02''] ''BatchDate'' = ''TIMESTAMP''"
    by (simp only: infer_column_type_def Let_def simp_thms if_True)
  have c: "\<not> (contains (lower ''Count'') ''date'' \<or> contains (lower ''Count'') ''time'')"
    "clean_values [''1'', ''2'', ''3''] = [''1'', ''2'', ''3'']"
    "\<not> list_all (\<lambda>v. lower v \<in> set bool_values) [''1'', ''2'', ''3'']"
    "list_all py_float_ok [''1'', ''2'', ''3'']"
    by code_simp+
  show "infer_column_type parse clock [''1'', ''2'', ''3''] ''Count'' = ''FLOAT''"
    unfolding infer_column_type_content [OF c(1,2) list.distinct(2)] using c(3,4)
    by (simp only: if_False if_True)
  have f: "\<not> (contains (lower ''Flag'') ''date'' \<or> contains (lower ''Flag'') ''time'')"
    "clean_values [''yes'', ''no'', ''yes''] = [''yes'', ''no'', ''yes'']"
    "list_all (\<lambda>v. lower v \<in> set bool_values) [''yes'', ''no'', ''yes'']"
    by code_simp+
  show "infer_column_type parse clock [''yes'', ''no'', ''yes''] ''Flag'' = ''BOOLEAN''"
    unfolding infer_column_type_content [OF f(1,2) list.distinct(2)] using f(3)
    by (simp only: if_False if_True)
  have n: "\<not> (contains (lower ''Notes'') ''date'' \<or> contains (lower ''Notes'') ''time'')"
    "clean_values [''ok'', ''n/a''] = [''ok'', ''n/a'']"
    "\<not> list_all (\<lambda>v. lower v \<in> set bool_values) [''ok'', ''n/a'']"
    "\<not> list_all py_float_ok [''ok'', ''n/a'']"
    by code_simp+
  have t: "list_all (\<lambda>(i, v). parse (clock i) v) (enumerate 0 (take 5 [''ok'', ''n/a'']))
      = (parse (clock 0) ''ok'' \<and> parse (clock 1) ''n/a'')"
    by simp
  show "\<not> (parse (clock 0) ''ok'' \<and> parse (clock 1) ''n/a'') \<longrightarrow>
      infer_column_type parse clock [''ok'', ''n/a''] ''Notes'' = ''TEXT''"
  proof
    assume a: "\<not> (parse (clock 0) ''ok'' \<and> parse (clock 1) ''n/a'')"
    show "infer_column_type parse clock [''ok'', ''n/a''] ''Notes'' = ''TEXT''"
      unfolding infer_column_type_content [OF n(1,2) list.distinct(2)] t using n(3,4) a
      by (simp only: if_False if_True)
  qed
qed

theorem infer_column_type_first_match_witness:
  "infer_column_type ordinal_day_parse january_clock [''ok'', ''n/a''] ''Notes'' = ''TEXT''
   \<and> infer_column_type ordinal_day_parse january_clock
        [[CHR 0xA0, CHR ''7'', CHR 0x85], ''NULL'', ''2.5e3''] ''Weight'' = ''FLOAT''
   \<and> infer_column_type ordinal_day_parse april_clock
        [[CHR 0xA0, CHR ''7'', CHR 0x85], ''NULL'', ''2.5e3''] ''Weight'' = ''FLOAT''
   \<and> infer_column_type ordinal_day_parse april_clock [''31st''] ''Created Date''
        = ''TIMESTAMP''"
proof -
  let ?s = "[[CHR 0xA0, CHR ''7'', CHR 0x85], ''NULL'', ''2.5e3'']"
  have p: "infer_policy ordinal_day_parse january_clock ''Weight'' ?s = ''FLOAT''"
    by code_simp
  have fl: "list_all py_float_ok (clean_values ?s)"
    by code_simp
  have o: "\<not> ordinal_day_parse (january_clock 0) ''ok''"
    by code_simp
  have d: "contains (lower ''Created Date'') ''date''"
    by code_simp
  from infer_column_type_first_match
         [of ordinal_day_parse january_clock ?s "''Weight''" ordinal_day_parse april_clock]
       infer_column_type_first_match
         [of ordinal_day_parse april_clock "[''31st'']" "''Created Date''"]
       p fl o d
  show ?thesis
    by metis
qed

section \<open>Properties of the unified view\<close>

lemma collect_columns_fst:
  "fst (collect_columns mds (A, T)) = A \<union> (\<Union>m \<in> set mds. columns_of m)"
  by (induction mds arbitrary: A T) (auto simp: columns_of_def split: option.splits)

lemma collect_columns_snd_other:
  "k \<notin> table_name ` set mds \<Longrightarrow> snd (collect_columns mds (A, T)) k = T k"
  by (induction mds arbitrary: A T) (auto split: option.splits)

lemma collect_columns_snd:
  "distinct (map table_name mds) \<Longrightarrow> m \<in> set mds \<Longrightarrow> columns_info m = Some cols_info \<Longrightarrow>
   snd (collect_columns mds (A, T)) (table_name m) = Some (set (safe_cols cols_info))"
proof (induction mds arbitrary: A T)
  case Nil
  then show ?case by simp
next
  case (Cons x mds)
  show ?case
  proof (cases "m = x")
    case True
    with Cons.prems have "table_name m \<notin> table_name ` set mds"
      by auto
    from collect_columns_snd_other [OF this] True Cons.prems(3) show ?thesis
      by simp
  next
    case False
    with Cons.prems have "m \<in> set mds" "distinct (map table_name mds)"
      by auto
    from Cons.IH [OF this(2,1) Cons.prems(3)] show ?thesis
      by (simp split: option.splits)
  qed
qed

lemma collect_columns_snd_Some:
  "T k \<noteq> None \<or> (\<exists>m \<in> set mds. table_name m = k \<and> columns_info m \<noteq> None) \<Longrightarrow>
   snd (collect_columns mds (A, T)) k \<noteq> None"
proof (induction mds arbitrary: A T)
  case Nil
  then show ?case by simp
next
  case (Cons x mds)
  show ?case
  proof (cases "columns_info x")
    case None
    with Cons.prems have "T k \<noteq> None \<or> (\<exists>m \<in> set mds. table_name m = k \<and> columns_info m \<noteq> None)"
      by auto
    with Cons.IH [of T A] None show ?thesis
      by simp
  next
    case (Some c)
    define T' where "T' = T(table_name x \<mapsto> set (safe_cols c))"
    have step: "collect_columns (x # mds) (A, T) = collect_columns mds (A \<union> set (safe_cols c), T')"
      by (simp add: Some T'_def)
    from Cons.prems Some have "T' k \<noteq> None \<or> (\<exists>m \<in> set mds. table_name m = k \<and> columns_info m \<noteq> None)"
      by (auto simp: T'_def)
    with Cons.IH [of T' "A \<union> set (safe_cols c)"]
    have "snd (collect_columns mds (A \<union> set (safe_cols c), T')) k \<noteq> None"
      by blast
    then show ?thesis
      unfolding step .
  qed
qed

lemma set_safe_cols:
  "set (safe_cols cols_info) = safe_col ` fst ` set cols_info \<union> {''id'', ''upload_timestamp'', ''anomaly_alert''}"
proof -
  have "set (map (\<lambda>(col_name, col_type). safe_col col_name) cols_info) = safe_col ` fst ` set cols_info"
    by (induction cols_info) auto
  then show ?thesis
    unfolding safe_cols_def by auto
qed

lemma all_columns_eq: "all_columns mds = (\<Union>m \<in> set mds. columns_of m)"
  by (simp add: all_columns_def collect_columns_fst)

lemma finite_all_columns: "finite (all_columns mds)"
  by (auto simp: all_columns_eq columns_of_def split: option.splits)

lemma union_queries_member:
  "m \<in> set mds \<Longrightarrow> tcols (table_name m) = Some cur \<Longrightarrow>
   select_query m sc cur \<in> set (union_queries mds sc tcols)"
  by (induction mds) (auto split: option.splits)

lemma collect_columns_snd_None:
  "distinct (map table_name mds) \<Longrightarrow> m \<in> set mds \<Longrightarrow> columns_info m = None \<Longrightarrow>
   snd (collect_columns mds (A, T)) (table_name m) = T (table_name m)"
proof (induction mds arbitrary: A T)
  case Nil
  then show ?case by simp
next
  case (Cons x mds)
  show ?case
  proof (cases "m = x")
    case True
    with Cons.prems have "table_name m \<notin> table_name ` set mds"
      by auto
    from collect_columns_snd_other [OF this] True Cons.prems(3) show ?thesis
      by simp
  next
    case False
    with Cons.prems have m: "m \<in> set mds" and d: "distinct (map table_name mds)"
      and n: "table_name x \<noteq> table_name m"
      by auto
    from Cons.IH [OF d m Cons.prems(3)] n show ?thesis
      by (simp split: option.splits)
  qed
qed

lemma table_columns_distinct:
  assumes "distinct (map table_name mds)" and "m \<in> set mds"
  shows "table_columns mds (table_name m) = map_option (\<lambda>cols_info. set (safe_cols cols_info)) (columns_info m)"
proof (cases "columns_info m")
  case None
  from collect_columns_snd_None [OF assms None, of "{}" Map.empty] None show ?thesis
    by (simp add: table_columns_def)
next
  case (Some cols_info)
  from collect_columns_snd [OF assms Some, of "{}" Map.empty] Some show ?thesis
    by (simp add: table_columns_def)
qed

lemma union_queries_eq:
  "\<forall>m \<in> set ms. tcols (table_name m) = map_option (\<lambda>cols_info. set (safe_cols cols_info)) (columns_info m) \<Longrightarrow>
   union_queries ms sc tcols =
     concat (map (\<lambda>m. case columns_info m of None \<Rightarrow> []
        | Some cols_info \<Rightarrow> [select_query m sc (set (safe_cols cols_info))]) ms)"
  by (induction ms) (auto split: option.splits)

lemma select_parts_text:
  "select_parts m sc cur =
     [[CHR 0x27] @ filename m @ [CHR 0x27] @ ''::text as source_filename'',
      [CHR 0x27] @ table_name m @ [CHR 0x27] @ ''::text as source_table'',
      [CHR 0x27] @ upload_timestamp m @ [CHR 0x27] @ ''::text as source_upload_time'']
     @ map (\<lambda>col.
         if col \<in> cur
         then (if list_ex (\<lambda>pattern. contains (lower col) pattern) numeric_patterns
               then ''CAST('' @ [CHR 0x22] @ col @ [CHR 0x22] @ '' AS DOUBLE PRECISION) as ''
                      @ [CHR 0x22] @ col @ [CHR 0x22]
               else [CHR 0x22] @ col @ [CHR 0x22])
         else ''NULL as '' @ [CHR 0x22] @ col @ [CHR 0x22]) sc"
  by (simp add: select_parts_def own_column_def null_column_def dquote_def squote_def Let_def)

lemma create_unified_view_sends:
  assumes "m \<in> set mds" and "columns_info m \<noteq> None"
      and "\<not> rejects s (Sql ''DROP VIEW IF EXISTS csv_data_unified_view'')"
      and "\<not> rejects s (Sql (view_sql (union_queries mds (sorted_columns mds) (table_columns mds))))"
      and "\<not> commit_fails s (pending s @ [Sql ''DROP VIEW IF EXISTS csv_data_unified_view'',
              Sql (view_sql (union_queries mds (sorted_columns mds) (table_columns mds)))])"
  shows "create_unified_view mds s =
     s\<lparr>committed := committed s @ pending s @ [Sql ''DROP VIEW IF EXISTS csv_data_unified_view'',
              Sql (view_sql (union_queries mds (sorted_columns mds) (table_columns mds)))],
       pending := []\<rparr>"
proof -
  from assms(1) have ne: "mds \<noteq> []"
    by auto
  from assms(1,2) have "columns_of m \<noteq> {}" "columns_of m \<subseteq> all_columns mds"
    by (auto simp: columns_of_def safe_cols_def all_columns_eq)
  then have ac: "all_columns mds \<noteq> {}"
    by auto
  from assms(1,2) have "table_columns mds (table_name m) \<noteq> None"
    unfolding table_columns_def by (intro collect_columns_snd_Some) auto
  then obtain cur where "table_columns mds (table_name m) = Some cur"
    by auto
  with assms(1) union_queries_member [where m = m and mds = mds and tcols = "table_columns mds"
      and sc = "sorted_columns mds"] have q: "union_queries mds (sorted_columns mds) (table_columns mds) \<noteq> []"
    by auto
  show ?thesis
    using ne ac q assms(3-5)
    by (simp add: create_unified_view_def Let_def exec_def commit_def)
qed

text \<open>
  Claim C3. The global column list of the unified view is the sorted list of the union,
  over the registered tables whose metadata loads, of their sanitized column names
  together with \<open>id\<close>, \<open>upload_timestamp\<close> and \<open>anomaly_alert\<close>: sorted, without
  repetition. With table names distinct, the branches of the view are, in the order of
  the registered tables whose metadata loads, the texts \<open>SELECT items FROM table\<close>, the
  items separated by a comma and a blank. The items of a table are the three provenance
  columns followed by one item for each global column in order: \<open>NULL as "column"\<close> if
  the table lacks the column, and the quoted column, cast to \<open>DOUBLE PRECISION\<close> when its
  name has a numeric pattern, if the table has it. The view statement joins the branches
  with \<open>UNION ALL\<close> under \<open>CREATE OR REPLACE VIEW csv_data_unified_view AS\<close>. With no
  registered table the rebuild returns the session as it was; otherwise, unless the
  database refuses, it sends the drop and the view statement and commits.
\<close>

theorem unified_view_columns:
  "sorted_columns mds =
     sorted_list_of_set (\<Union>m \<in> set mds. case columns_info m of None \<Rightarrow> {}
        | Some cols_info \<Rightarrow> safe_col ` fst ` set cols_info \<union> {''id'', ''upload_timestamp'', ''anomaly_alert''})
   \<and> set (sorted_columns mds) =
       (\<Union>m \<in> set mds. case columns_info m of None \<Rightarrow> {}
        | Some cols_info \<Rightarrow> safe_col ` fst ` set cols_info \<union> {''id'', ''upload_timestamp'', ''anomaly_alert''})
   \<and> sorted (sorted_columns mds) \<and> distinct (sorted_columns mds)
   \<and> (distinct (map table_name mds) \<longrightarrow>
        union_queries mds (sorted_columns mds) (table_columns mds) =
          concat (map (\<lambda>m. case columns_info m of None \<Rightarrow> []
             | Some cols_info \<Rightarrow>
                 [''SELECT '' @ join '', '' (select_parts m (sorted_columns mds) (set (safe_cols cols_info)))
                    @ '' FROM '' @ table_name m]) mds))
   \<and> select_parts m (sorted_columns mds) (set (safe_cols cols_info)) =
       [[CHR 0x27] @ filename m @ [CHR 0x27] @ ''::text as source_filename'',
        [CHR 0x27] @ table_name m @ [CHR 0x27] @ ''::text as source_table'',
        [CHR 0x27] @ upload_timestamp m @ [CHR 0x27] @ ''::text as source_upload_time'']
       @ map (\<lambda>col.
           if col \<in> safe_col ` fst ` set cols_info \<union> {''id'', ''upload_timestamp'', ''anomaly_alert''}
           then (if list_ex (\<lambda>pattern. contains (lower col) pattern) numeric_patterns
                 then ''CAST('' @ [CHR 0x22] @ col @ [CHR 0x22] @ '' AS DOUBLE PRECISION) as ''
                        @ [CHR 0x22] @ col @ [CHR 0x22]
                 else [CHR 0x22] @ col @ [CHR 0x22])
           else ''NULL as '' @ [CHR 0x22] @ col @ [CHR 0x22]) (sorted_columns mds)
   \<and> view_sql queries =
         [CHR 0x0A] @ ''        CREATE OR REPLACE VIEW csv_data_unified_view AS'' @ [CHR 0x0A]
         @ ''        '' @ join '' UNION ALL '' queries @ [CHR 0x0A] @ ''        ''
   \<and> create_unified_view [] s = s
   \<and> (m \<in> set mds \<and> columns_info m \<noteq> None
        \<and> \<not> rejects s (Sql ''DROP VIEW IF EXISTS csv_data_unified_view'')
        \<and> \<not> rejects s (Sql (view_sql (union_queries mds (sorted_columns mds) (table_columns mds))))
        \<and> \<not> commit_fails s (pending s @ [Sql ''DROP VIEW IF EXISTS csv_data_unified_view'',
              Sql (view_sql (union_queries mds (sorted_columns mds) (table_columns mds)))]) \<longrightarrow>
      create_unified_view mds s =
        s\<lparr>committed := committed s @ pending s @ [Sql ''DROP VIEW IF EXISTS csv_data_unified_view'',
              Sql (view_sql (union_queries mds (sorted_columns mds) (table_columns mds)))],
          pending := []\<rparr>)"
proof -
  let ?U = "(\<Union>m \<in> set mds. case columns_info m of None \<Rightarrow> {}
        | Some cols_info \<Rightarrow> safe_col ` fst ` set cols_info \<union> {''id'', ''upload_timestamp'', ''anomaly_alert''})"
  have c: "columns_of x = (case columns_info x of None \<Rightarrow> {}
        | Some cols_info \<Rightarrow> safe_col ` fst ` set cols_info \<union> {''id'', ''upload_timestamp'', ''anomaly_alert''})" for x
    by (simp add: columns_of_def set_safe_cols split: option.splits)
  have u: "all_columns mds = ?U"
    unfolding all_columns_eq c ..
  have 1: "sorted_columns mds = sorted_list_of_set ?U"
    by (simp only: sorted_columns_def u)
  have f: "finite ?U"
    using finite_all_columns [of mds] unfolding u .
  have 2: "set (sorted_columns mds) = ?U" "sorted (sorted_columns mds)" "distinct (sorted_columns mds)"
    unfolding 1 using f by simp_all
  have 3: "(distinct (map table_name mds) \<longrightarrow>
        union_queries mds (sorted_columns mds) (table_columns mds) =
          concat (map (\<lambda>m. case columns_info m of None \<Rightarrow> []
             | Some cols_info \<Rightarrow>
                 [''SELECT '' @ join '', '' (select_parts m (sorted_columns mds) (set (safe_cols cols_info)))
                    @ '' FROM '' @ table_name m]) mds))"
  proof
    assume d: "distinct (map table_name mds)"
    then have "\<forall>m \<in> set mds. table_columns mds (table_name m)
        = map_option (\<lambda>cols_info. set (safe_cols cols_info)) (columns_info m)"
      by (simp add: table_columns_distinct)
    from union_queries_eq [OF this, of "sorted_columns mds"]
    show "union_queries mds (sorted_columns mds) (table_columns mds) =
          concat (map (\<lambda>m. case columns_info m of None \<Rightarrow> []
             | Some cols_info \<Rightarrow>
                 [''SELECT '' @ join '', '' (select_parts m (sorted_columns mds) (set (safe_cols cols_info)))
                    @ '' FROM '' @ table_name m]) mds)"
      unfolding select_query_def .
  qed
  have 4: "select_parts m (sorted_columns mds) (set (safe_cols cols_info)) =
       [[CHR 0x27] @ filename m @ [CHR 0x27] @ ''::text as source_filename'',
        [CHR 0x27] @ table_name m @ [CHR 0x27] @ ''::text as source_table'',
        [CHR 0x27] @ upload_timestamp m @ [CHR 0x27] @ ''::text as source_upload_time'']
       @ map (\<lambda>col.
           if col \<in> safe_col ` fst ` set cols_info \<union> {''id'', ''upload_timestamp'', ''anomaly_alert''}
           then (if list_ex (\<lambda>pattern. contains (lower col) pattern) numeric_patterns
                 then ''CAST('' @ [CHR 0x22] @ col @ [CHR 0x22] @ '' AS DOUBLE PRECISION) as ''
                        @ [CHR 0x22] @ col @ [CHR 0x22]
                 else [CHR 0x22] @ col @ [CHR 0x22])
           else ''NULL as '' @ [CHR 0x22] @ col @ [CHR 0x22]) (sorted_columns mds)"
    by (simp only: select_parts_text set_safe_cols)
  have 5: "view_sql queries =
         [CHR 0x0A] @ ''        CREATE OR REPLACE VIEW csv_data_unified_view AS'' @ [CHR 0x0A]
         @ ''        '' @ join '' UNION ALL '' queries @ [CHR 0x0A] @ ''        ''"
    by (simp only: view_sql_def)
  have 6: "create_unified_view [] s = s"
    by (simp add: create_unified_view_def)
  from 1 2 3 4 5 6 create_unified_view_sends [of m mds s] show ?thesis
    by blast
qed

theorem unified_view_columns_witness:
  "sorted_columns [energy_upload, notes_upload] =
     [''anomaly_alert'', ''csv_id'', ''energy_kwh'', ''id'', ''notes'', ''upload_timestamp'']
   \<and> select_parts notes_upload (sorted_columns [energy_upload, notes_upload])
        (set (safe_cols [(''Notes'', ''TEXT'')])) ! 4 = ''NULL as '' @ [CHR 0x22] @ ''csv_id'' @ [CHR 0x22]
   \<and> create_unified_view [energy_upload, notes_upload] sample_db =
       sample_db\<lparr>committed :=
         [Sql ''DROP VIEW IF EXISTS csv_data_unified_view'',
          Sql ([CHR 0x0A] @ ''        CREATE OR REPLACE VIEW csv_data_unified_view AS'' @ [CHR 0x0A]
          @ ''        ''
          @ ''SELECT '' @ [CHR 0x27] @ ''energy.csv'' @ [CHR 0x27] @ ''::text as source_filename, '' @ [CHR 0x27] @ ''csv_energy_20240102_030405_000'' @ [CHR 0x27] @ ''::text as source_table, '' @ [CHR 0x27] @ ''2024-01-02 03:04:05'' @ [CHR 0x27] @ ''::text as source_upload_time, '' @ [CHR 0x22] @ ''anomaly_alert'' @ [CHR 0x22] @ '', '' @ [CHR 0x22] @ ''csv_id'' @ [CHR 0x22] @ '', CAST('' @ [CHR 0x22] @ ''energy_kwh'' @ [CHR 0x22] @ '' AS DOUBLE PRECISION) as '' @ [CHR 0x22] @ ''energy_kwh'' @ [CHR 0x22] @ '', '' @ [CHR 0x22] @ ''id'' @ [CHR 0x22] @ '', NULL as '' @ [CHR 0x22] @ ''notes'' @ [CHR 0x22] @ '', '' @ [CHR 0x22] @ ''upload_timestamp'' @ [CHR 0x22] @ '' FROM csv_energy_20240102_030405_000''
          @ '' UNION ALL ''
          @ ''SELECT '' @ [CHR 0x27] @ ''notes.csv'' @ [CHR 0x27] @ ''::text as source_filename, '' @ [CHR 0x27] @ ''csv_notes_20240102_030406_000'' @ [CHR 0x27] @ ''::text as source_table, '' @ [CHR 0x27] @ ''2024-01-02 03:04:06'' @ [CHR 0x27] @ ''::text as source_upload_time, '' @ [CHR 0x22] @ ''anomaly_alert'' @ [CHR 0x22] @ '', NULL as '' @ [CHR 0x22] @ ''csv_id'' @ [CHR 0x22] @ '', NULL as '' @ [CHR 0x22] @ ''energy_kwh'' @ [CHR 0x22] @ '', '' @ [CHR 0x22] @ ''id'' @ [CHR 0x22] @ '', '' @ [CHR 0x22] @ ''notes'' @ [CHR 0x22] @ '', '' @ [CHR 0x22] @ ''upload_timestamp'' @ [CHR 0x22] @ '' FROM csv_notes_20240102_030406_000''
          @ [CHR 0x0A] @ ''        '')],
         pending := []\<rparr>"
proof -
  let ?mds = "[energy_upload, notes_upload]"
  let ?q1 = "''SELECT '' @ [CHR 0x27] @ ''energy.csv'' @ [CHR 0x27] @ ''::text as source_filename, '' @ [CHR 0x27] @ ''csv_energy_20240102_030405_000'' @ [CHR 0x27] @ ''::text as source_table, '' @ [CHR 0x27] @ ''2024-01-02 03:04:05'' @ [CHR 0x27] @ ''::text as source_upload_time, '' @ [CHR 0x22] @ ''anomaly_alert'' @ [CHR 0x22] @ '', '' @ [CHR 0x22] @ ''csv_id'' @ [CHR 0x22] @ '', CAST('' @ [CHR 0x22] @ ''energy_kwh'' @ [CHR 0x22] @ '' AS DOUBLE PRECISION) as '' @ [CHR 0x22] @ ''energy_kwh'' @ [CHR 0x22] @ '', '' @ [CHR 0x22] @ ''id'' @ [CHR 0x22] @ '', NULL as '' @ [CHR 0x22] @ ''notes'' @ [CHR 0x22] @ '', '' @ [CHR 0x22] @ ''upload_timestamp'' @ [CHR 0x22] @ '' FROM csv_energy_20240102_030405_000''"
  let ?q2 = "''SELECT '' @ [CHR 0x27] @ ''notes.csv'' @ [CHR 0x27] @ ''::text as source_filename, '' @ [CHR 0x27] @ ''csv_notes_20240102_030406_000'' @ [CHR 0x27] @ ''::text as source_table, '' @ [CHR 0x27] @ ''2024-01-02 03:04:06'' @ [CHR 0x27] @ ''::text as source_upload_time, '' @ [CHR 0x22] @ ''anomaly_alert'' @ [CHR 0x22] @ '', NULL as '' @ [CHR 0x22] @ ''csv_id'' @ [CHR 0x22] @ '', NULL as '' @ [CHR 0x22] @ ''energy_kwh'' @ [CHR 0x22] @ '', '' @ [CHR 0x22] @ ''id'' @ [CHR 0x22] @ '', '' @ [CHR 0x22] @ ''notes'' @ [CHR 0x22] @ '', '' @ [CHR 0x22] @ ''upload_timestamp'' @ [CHR 0x22] @ '' FROM csv_notes_20240102_030406_000''"
  have sc: "sorted_columns ?mds =
     [''anomaly_alert'', ''csv_id'', ''energy_kwh'', ''id'', ''notes'', ''upload_timestamp'']"
    by code_simp
  have d: "distinct (map table_name ?mds)"
    by code_simp
  have m: "notes_upload \<in> set ?mds \<and> columns_info notes_upload \<noteq> None"
    by (simp add: notes_upload_def)
  have r: "\<not> rejects sample_db st" "\<not> commit_fails sample_db p" "pending sample_db = []"
    "committed sample_db = []" for st p
    by (simp_all add: sample_db_def)
  note t = unified_view_columns [where mds = ?mds and m = notes_upload
      and cols_info = "[(''Notes'', ''TEXT'')]" and s = sample_db
      and queries = "[?q1, ?q2]"]
  from t d have "union_queries ?mds (sorted_columns ?mds) (table_columns ?mds) =
          concat (map (\<lambda>m. case columns_info m of None \<Rightarrow> []
             | Some cols_info \<Rightarrow>
                 [''SELECT '' @ join '', '' (select_parts m (sorted_columns ?mds) (set (safe_cols cols_info)))
                    @ '' FROM '' @ table_name m]) ?mds)"
    by blast
  also have "\<dots> = [?q1, ?q2]"
    by code_simp
  finally have q: "union_queries ?mds (sorted_columns ?mds) (table_columns ?mds) = [?q1, ?q2]" .
  from t have v: "view_sql [?q1, ?q2] =
         [CHR 0x0A] @ ''        CREATE OR REPLACE VIEW csv_data_unified_view AS'' @ [CHR 0x0A]
         @ ''        '' @ join '' UNION ALL '' [?q1, ?q2]
         @ [CHR 0x0A] @ ''        ''"
    by blast
  have j: "join '' UNION ALL '' [?q1, ?q2] = ?q1 @ '' UNION ALL '' @ ?q2"
    by (simp only: join.simps)
  from t m r have "create_unified_view ?mds sample_db =
        sample_db\<lparr>committed := committed sample_db @ pending sample_db @ [Sql ''DROP VIEW IF EXISTS csv_data_unified_view'',
              Sql (view_sql (union_queries ?mds (sorted_columns ?mds) (table_columns ?mds)))],
          pending := []\<rparr>"
    by blast
  then have sent: "create_unified_view ?mds sample_db =
       sample_db\<lparr>committed :=
         [Sql ''DROP VIEW IF EXISTS csv_data_unified_view'',
          Sql ([CHR 0x0A] @ ''        CREATE OR REPLACE VIEW csv_data_unified_view AS'' @ [CHR 0x0A]
          @ ''        ''
          @ ''SELECT '' @ [CHR 0x27] @ ''energy.csv'' @ [CHR 0x27] @ ''::text as source_filename, '' @ [CHR 0x27] @ ''csv_energy_20240102_030405_000'' @ [CHR 0x27] @ ''::text as source_table, '' @ [CHR 0x27] @ ''2024-01-02 03:04:05'' @ [CHR 0x27] @ ''::text as source_upload_time, '' @ [CHR 0x22] @ ''anomaly_alert'' @ [CHR 0x22] @ '', '' @ [CHR 0x22] @ ''csv_id'' @ [CHR 0x22] @ '', CAST('' @ [CHR 0x22] @ ''energy_kwh'' @ [CHR 0x22] @ '' AS DOUBLE PRECISION) as '' @ [CHR 0x22] @ ''energy_kwh'' @ [CHR 0x22] @ '', '' @ [CHR 0x22] @ ''id'' @ [CHR 0x22] @ '', NULL as '' @ [CHR 0x22] @ ''notes'' @ [CHR 0x22] @ '', '' @ [CHR 0x22] @ ''upload_timestamp'' @ [CHR 0x22] @ '' FROM csv_energy_20240102_030405_000''
          @ '' UNION ALL ''
          @ ''SELECT '' @ [CHR 0x27] @ ''notes.csv'' @ [CHR 0x27] @ ''::text as source_filename, '' @ [CHR 0x27] @ ''csv_notes_20240102_030406_000'' @ [CHR 0x27] @ ''::text as source_table, '' @ [CHR 0x27] @ ''2024-01-02 03:04:06'' @ [CHR 0x27] @ ''::text as source_upload_time, '' @ [CHR 0x22] @ ''anomaly_alert'' @ [CHR 0x22] @ '', NULL as '' @ [CHR 0x22] @ ''csv_id'' @ [CHR 0x22] @ '', NULL as '' @ [CHR 0x22] @ ''energy_kwh'' @ [CHR 0x22] @ '', '' @ [CHR 0x22] @ ''id'' @ [CHR 0x22] @ '', '' @ [CHR 0x22] @ ''notes'' @ [CHR 0x22] @ '', '' @ [CHR 0x22] @ ''upload_timestamp'' @ [CHR 0x22] @ '' FROM csv_notes_20240102_030406_000''
          @ [CHR 0x0A] @ ''        '')],
         pending := []\<rparr>"
    unfolding q v j r(3,4) by (simp only: append_Nil append_assoc)
  from t have parts: "select_parts notes_upload (sorted_columns ?mds) (set (safe_cols [(''Notes'', ''TEXT'')])) =
       [[CHR 0x27] @ filename notes_upload @ [CHR 0x27] @ ''::text as source_filename'',
        [CHR 0x27] @ table_name notes_upload @ [CHR 0x27] @ ''::text as source_table'',
        [CHR 0x27] @ upload_timestamp notes_upload @ [CHR 0x27] @ ''::text as source_upload_time'']
       @ map (\<lambda>col.
           if col \<in> safe_col ` fst ` set [(''Notes'', ''TEXT'')] \<union> {''id'', ''upload_timestamp'', ''anomaly_alert''}
           then (if list_ex (\<lambda>pattern. contains (lower col) pattern) numeric_patterns
                 then ''CAST('' @ [CHR 0x22] @ col @ [CHR 0x22] @ '' AS DOUBLE PRECISION) as ''
                        @ [CHR 0x22] @ col @ [CHR 0x22]
                 else [CHR 0x22] @ col @ [CHR 0x22])
           else ''NULL as '' @ [CHR 0x22] @ col @ [CHR 0x22]) (sorted_columns ?mds)"
    by blast
  have n: "''csv_id'' \<notin> safe_col ` fst ` set [(''Notes'', ''TEXT'')] \<union> {''id'', ''upload_timestamp'', ''anomaly_alert''}"
    by code_simp
  have nth: "select_parts notes_upload (sorted_columns ?mds) (set (safe_cols [(''Notes'', ''TEXT'')])) ! 4
      = ''NULL as '' @ [CHR 0x22] @ ''csv_id'' @ [CHR 0x22]"
    unfolding sc parts [unfolded sc] using n by (simp add: nth_append)
  from sc nth sent show ?thesis
    by (intro conjI)
qed

section \<open>Properties of the feature engineer\<close>

lemma set_assign_col: "set (assign_col c cols) = insert c (set cols)"
  by (auto simp: assign_col_def)

lemma count_label_absent: "c \<notin> set cols \<Longrightarrow> count_label c cols = 0"
  by (induction cols) (auto simp: count_label_def)

lemma count_label_assign_col:
  "count_label c (assign_col target cols) \<le> 1 \<longleftrightarrow> count_label c cols \<le> 1"
proof (cases "target \<in> set cols")
  case True
  then show ?thesis by (simp add: assign_col_def)
next
  case False
  show ?thesis
  proof (cases "c = target")
    case True
    with False have "count_label c cols = 0"
      by (simp add: count_label_absent)
    with False True show ?thesis
      by (simp add: assign_col_def count_label_def)
  next
    case False
    then show ?thesis
      by (simp add: assign_col_def count_label_def)
  qed
qed

lemma count_label_assign_col_Suc:
  "count_label c (assign_col target cols) \<le> Suc 0 \<longleftrightarrow> count_label c cols \<le> Suc 0"
  using count_label_assign_col [of c target cols] by simp

lemma rename_keeps: "c \<in> set cols \<Longrightarrow> c \<noteq> old_col \<or> new_col = old_col \<Longrightarrow> c \<in> set (rename old_col new_col cols)"
  by (auto simp: rename_def)

lemma apply_mapping_keeps:
  assumes "c \<in> set cols" and "\<forall>(old_col, new_col) \<in> set mapping. c \<noteq> old_col \<or> new_col = old_col"
  shows "c \<in> set (apply_mapping mapping cols)"
  using assms
proof (induction mapping arbitrary: cols)
  case Nil
  then show ?case by simp
next
  case (Cons p mapping)
  obtain old_col new_col where p: "p = (old_col, new_col)" by (cases p)
  from Cons.prems p have "c \<in> set (if old_col \<in> set cols then rename old_col new_col cols else cols)"
    by (auto intro: rename_keeps)
  with Cons.IH Cons.prems p show ?case
    by auto
qed

lemma column_mapping_keeps:
  assumes "c \<in> set [''Energy_kWh'', ''OutputWeight_kg'', ''InputWeight_kg'', ''RoomTemp_C'']"
      and "c \<in> set cols"
  shows "c \<in> set (apply_mapping column_mapping cols)"
proof (rule apply_mapping_keeps [OF assms(2)])
  from assms(1) show "\<forall>(old_col, new_col) \<in> set column_mapping. c \<noteq> old_col \<or> new_col = old_col"
    by (auto simp: column_mapping_def)
qed

lemma derive_quiet: "arith operands = None \<Longrightarrow> derive arith operands target cols = Inr (assign_col target cols)"
  by (simp add: derive_def)

lemma basic_features_complete:
  assumes "\<forall>operands. arith operands = None"
  shows "\<exists>basic. calculate_basic_features arith cols = Inr basic
     \<and> (set [''Energy_kWh'', ''OutputWeight_kg'', ''InputWeight_kg'', ''RoomTemp_C'']
             \<subseteq> set (apply_mapping column_mapping cols) \<longrightarrow>
         set [''Energy_kWh'', ''Energy_per_kg'', ''Yield_loss_pct'', ''RoomTemp_C'', ''CO2_per_kg'', ''Energy_x_Temp'']
           \<subseteq> set basic)
     \<and> (\<forall>c. count_label c basic \<le> 1 \<longleftrightarrow> count_label c (apply_mapping column_mapping cols) \<le> 1)"
  using assms
  by (simp add: calculate_basic_features_def Let_def derive_quiet set_assign_col count_label_assign_col_Suc)

lemma temporal_features_present:
  "set cols \<union> set [''Batch_Hour'', ''Batch_DayOfWeek'', ''Time_Since_Last_Batch'']
     \<subseteq> set (calculate_temporal_features init_config cols)"
  by (auto simp: calculate_temporal_features_def init_config_def set_assign_col split: option.splits)

lemma temporal_features_count:
  "count_label c (calculate_temporal_features config cols) \<le> 1 \<longleftrightarrow> count_label c cols \<le> 1"
  by (simp add: calculate_temporal_features_def count_label_assign_col_Suc split: option.splits)

lemma copy_col_Inr: "copy_col src target cols = Inr c \<Longrightarrow> c = assign_col target cols"
  by (simp add: copy_col_def split: if_splits)

lemma copy_col_single:
  "count_label src cols \<le> 1 \<Longrightarrow> copy_col src target cols = Inr (assign_col target cols)"
  by (simp add: copy_col_def)

lemma rolling_stat_Inr: "rolling_stat rolling src target cols = Inr c \<Longrightarrow> c = assign_col target cols"
  by (auto simp: rolling_stat_def split: option.splits dest: copy_col_Inr)

lemma rolling_fallback_present:
  assumes "rolling_fallback cols = Inr c"
  shows "set cols \<subseteq> set c
   \<and> (''Energy_kWh'' \<in> set cols \<longrightarrow>
        ''Energy_kWh_Rolling_Mean'' \<in> set c \<and> ''Energy_kWh_Rolling_Std'' \<in> set c)
   \<and> (''Yield_loss_pct'' \<in> set cols \<longrightarrow> ''Yield_loss_pct_Rolling_Mean'' \<in> set c)"
proof (cases "''Energy_kWh'' \<in> set cols")
  case True
  with assms obtain c1 where c1: "copy_col ''Energy_kWh'' ''Energy_kWh_Rolling_Mean'' cols = Inr c1"
    by (auto simp: rolling_fallback_def split: sum.splits)
  define c2 where "c2 = assign_col ''Energy_kWh_Rolling_Std'' c1"
  from copy_col_Inr [OF c1] have s2: "set c2 = insert ''Energy_kWh_Rolling_Std'' (insert ''Energy_kWh_Rolling_Mean'' (set cols))"
    by (simp add: c2_def set_assign_col)
  from assms True c1 have r: "(if ''Yield_loss_pct'' \<in> set c2
          then copy_col ''Yield_loss_pct'' ''Yield_loss_pct_Rolling_Mean'' c2 else Inr c2) = Inr c"
    by (auto simp: rolling_fallback_def c2_def split: if_splits)
  have y: "''Yield_loss_pct'' \<in> set c2 \<longleftrightarrow> ''Yield_loss_pct'' \<in> set cols"
    unfolding s2 by simp
  from r have "set c = (if ''Yield_loss_pct'' \<in> set cols then insert ''Yield_loss_pct_Rolling_Mean'' (set c2) else set c2)"
    using y by (auto simp: set_assign_col dest!: copy_col_Inr split: if_splits)
  with s2 show ?thesis
    by auto
next
  case False
  with assms have r: "(if ''Yield_loss_pct'' \<in> set cols
          then copy_col ''Yield_loss_pct'' ''Yield_loss_pct_Rolling_Mean'' cols else Inr cols) = Inr c"
    by (simp add: rolling_fallback_def)
  then have "set c = (if ''Yield_loss_pct'' \<in> set cols then insert ''Yield_loss_pct_Rolling_Mean'' (set cols) else set cols)"
    by (auto simp: set_assign_col dest!: copy_col_Inr split: if_splits)
  with False show ?thesis
    by auto
qed

lemma rolling_fallback_returns:
  assumes "count_label ''Energy_kWh'' cols \<le> 1" and "count_label ''Yield_loss_pct'' cols \<le> 1"
  shows "\<exists>c. rolling_fallback cols = Inr c"
proof -
  have "count_label ''Yield_loss_pct''
      (assign_col ''Energy_kWh_Rolling_Std'' (assign_col ''Energy_kWh_Rolling_Mean'' cols)) \<le> 1"
    using assms(2) by (simp only: count_label_assign_col)
  with assms show ?thesis
    by (simp add: rolling_fallback_def copy_col_single)
qed

lemma rolling_yield_present:
  assumes "rolling_yield rolling cols = Inr c"
  shows "set cols \<subseteq> set c
   \<and> (''Energy_kWh'' \<in> set cols \<and> ''Energy_kWh_Rolling_Mean'' \<in> set cols
        \<and> ''Energy_kWh_Rolling_Std'' \<in> set cols \<or> ''Energy_kWh'' \<notin> set cols \<longrightarrow>
      (''Yield_loss_pct'' \<in> set cols \<longrightarrow> ''Yield_loss_pct_Rolling_Mean'' \<in> set c))"
proof (cases "''Yield_loss_pct'' \<in> set cols")
  case False
  with assms show ?thesis by (simp add: rolling_yield_def)
next
  case True
  show ?thesis
  proof (cases "rolling_stat rolling ''Yield_loss_pct'' ''Yield_loss_pct_Rolling_Mean'' cols")
    case (Inl e)
    with assms True have "rolling_fallback cols = Inr c"
      by (simp add: rolling_yield_def)
    from rolling_fallback_present [OF this] show ?thesis
      by blast
  next
    case (Inr c')
    with assms True have "c = c'"
      by (simp add: rolling_yield_def)
    with rolling_stat_Inr [OF Inr] show ?thesis
      by (auto simp: set_assign_col)
  qed
qed

lemma rolling_yield_returns:
  assumes "count_label ''Energy_kWh'' cols \<le> 1" and "count_label ''Yield_loss_pct'' cols \<le> 1"
  shows "\<exists>c. rolling_yield rolling cols = Inr c"
  using rolling_fallback_returns [OF assms]
  by (auto simp: rolling_yield_def split: sum.splits)

lemma rolling_features_present:
  assumes "calculate_rolling_features rolling init_config cols = Inr c"
  shows "set cols \<subseteq> set c
   \<and> (''Energy_kWh'' \<in> set cols \<longrightarrow>
        ''Energy_kWh_Rolling_Mean'' \<in> set c \<and> ''Energy_kWh_Rolling_Std'' \<in> set c)
   \<and> (''Yield_loss_pct'' \<in> set cols \<longrightarrow> ''Yield_loss_pct_Rolling_Mean'' \<in> set c)"
proof (cases "''Energy_kWh'' \<in> set cols")
  case False
  with assms have "rolling_yield rolling cols = Inr c"
    by (simp add: calculate_rolling_features_def init_config_def)
  from rolling_yield_present [OF this] False show ?thesis
    by blast
next
  case True
  show ?thesis
  proof (cases "rolling_stat rolling ''Energy_kWh'' ''Energy_kWh_Rolling_Mean'' cols")
    case (Inl e)
    with assms True have "rolling_fallback cols = Inr c"
      by (simp add: calculate_rolling_features_def init_config_def)
    from rolling_fallback_present [OF this] show ?thesis
      by blast
  next
    case c1: (Inr cols1)
    from rolling_stat_Inr [OF c1] have s1: "set cols1 = insert ''Energy_kWh_Rolling_Mean'' (set cols)"
      by (simp add: set_assign_col)
    show ?thesis
    proof (cases "rolling_stat rolling ''Energy_kWh'' ''Energy_kWh_Rolling_Std'' cols1")
      case (Inl e)
      with assms True c1 have "rolling_fallback cols1 = Inr c"
        by (simp add: calculate_rolling_features_def init_config_def)
      from rolling_fallback_present [OF this] s1 show ?thesis
        by blast
    next
      case c2: (Inr cols2)
      from rolling_stat_Inr [OF c2] s1
      have s2: "set cols2 = insert ''Energy_kWh_Rolling_Std'' (insert ''Energy_kWh_Rolling_Mean'' (set cols))"
        by (simp add: set_assign_col)
      from assms True c1 c2 have "rolling_yield rolling cols2 = Inr c"
        by (simp add: calculate_rolling_features_def init_config_def)
      from rolling_yield_present [OF this] s2 show ?thesis
        by blast
    qed
  qed
qed

lemma rolling_features_returns:
  assumes "count_label ''Energy_kWh'' cols \<le> 1" and "count_label ''Yield_loss_pct'' cols \<le> 1"
  shows "\<exists>c. calculate_rolling_features rolling config cols = Inr c"
proof -
  have a: "\<exists>c. rolling_fallback (assign_col t cols) = Inr c" for t
    using assms by (intro rolling_fallback_returns) (simp_all only: count_label_assign_col)
  have b: "\<exists>c. rolling_yield rolling (assign_col t (assign_col u cols)) = Inr c" for t u
    using assms by (intro rolling_yield_returns) (simp_all only: count_label_assign_col)
  show ?thesis
    using rolling_fallback_returns [OF assms] rolling_yield_returns [OF assms, of rolling] a b
    by (auto simp: calculate_rolling_features_def split: sum.splits dest!: rolling_stat_Inr)
qed

lemma equipment_features_present:
  "set cols \<union> set [''Machine_Batch_Count'', ''ProductionStage_Encoded'', ''Machine_Utilization'']
     \<subseteq> set (calculate_equipment_features init_config cols)"
  by (auto simp: calculate_equipment_features_def init_config_def Let_def set_assign_col)

lemma engineer_features_Inr:
  assumes "engineer_features arith rolling init_config cols = Inr cols'"
  shows "\<exists>basic. calculate_basic_features arith cols = Inr basic
     \<and> set basic \<union> set [''Batch_Hour'', ''Batch_DayOfWeek'', ''Time_Since_Last_Batch'',
        ''Machine_Batch_Count'', ''ProductionStage_Encoded'', ''Machine_Utilization''] \<subseteq> set cols'
     \<and> (''Energy_kWh'' \<in> set basic \<and> ''Yield_loss_pct'' \<in> set basic \<longrightarrow>
        set [''Energy_kWh_Rolling_Mean'', ''Energy_kWh_Rolling_Std'', ''Yield_loss_pct_Rolling_Mean'']
          \<subseteq> set cols')"
proof -
  from assms obtain basic rolled where b: "calculate_basic_features arith cols = Inr basic"
    and r: "calculate_rolling_features rolling init_config (calculate_temporal_features init_config basic) = Inr rolled"
    and e: "cols' = calculate_equipment_features init_config rolled"
    by (auto simp: engineer_features_def split: sum.splits)
  let ?t = "calculate_temporal_features init_config basic"
  have t: "set basic \<union> set [''Batch_Hour'', ''Batch_DayOfWeek'', ''Time_Since_Last_Batch''] \<subseteq> set ?t"
    by (rule temporal_features_present)
  note p = rolling_features_present [OF r]
  have q: "set rolled \<union> set [''Machine_Batch_Count'', ''ProductionStage_Encoded'', ''Machine_Utilization''] \<subseteq> set cols'"
    unfolding e by (rule equipment_features_present)
  have 1: "set basic \<union> set [''Batch_Hour'', ''Batch_DayOfWeek'', ''Time_Since_Last_Batch'',
        ''Machine_Batch_Count'', ''ProductionStage_Encoded'', ''Machine_Utilization''] \<subseteq> set cols'"
    using t p q by auto
  have 2: "set [''Energy_kWh_Rolling_Mean'', ''Energy_kWh_Rolling_Std'', ''Yield_loss_pct_Rolling_Mean''] \<subseteq> set cols'"
    if "''Energy_kWh'' \<in> set basic \<and> ''Yield_loss_pct'' \<in> set basic"
  proof -
    from that t have "''Energy_kWh'' \<in> set ?t" "''Yield_loss_pct'' \<in> set ?t"
      by auto
    with p have "set [''Energy_kWh_Rolling_Mean'', ''Energy_kWh_Rolling_Std'', ''Yield_loss_pct_Rolling_Mean''] \<subseteq> set rolled"
      by simp
    with q show ?thesis
      by blast
  qed
  from b 1 2 show ?thesis
    by blast
qed

text \<open>
  Claim C2 as stated fails: on a frame whose only column is \<open>batchid\<close> the engineer
  returns seven columns; \<open>Energy_kWh\<close> and the other basic and rolling features are not
  among them. On a frame whose KPI arithmetic raises (text in \<open>Energy_kWh\<close>, say) the
  basic stage has no handler and no frame is returned. And on a frame with two aliases of
  the energy column both are renamed to \<open>Energy_kWh\<close>: the rolling mean of the two columns
  cannot be assigned to one label, the handler assigns \<open>df['Energy_kWh']\<close> to one label
  again, outside any \<open>try\<close>, and its \<open>ValueError\<close> leaves \<open>engineer_features\<close>.
\<close>

theorem engineer_features_missing_counterexample:
  "engineer_features (\<lambda>operands. None) (\<lambda>target. None) init_config [''batchid''] =
     Inr [''batchid'', ''Batch_Hour'', ''Batch_DayOfWeek'', ''Time_Since_Last_Batch'',
          ''Machine_Batch_Count'', ''ProductionStage_Encoded'', ''Machine_Utilization'']
   \<and> \<not> set get_feature_names
        \<subseteq> set [''batchid'', ''Batch_Hour'', ''Batch_DayOfWeek'', ''Time_Since_Last_Batch'',
               ''Machine_Batch_Count'', ''ProductionStage_Encoded'', ''Machine_Utilization'']
   \<and> engineer_features (\<lambda>operands. Some TypeError) (\<lambda>target. None) init_config
        [''Energy_kWh'', ''OutputWeight_kg''] = Inl TypeError
   \<and> engineer_features (\<lambda>operands. None) (\<lambda>target. None) init_config
        [''Energy_Consumption__kWh_'', ''energy_consumption__kwh_''] = Inl ValueError"
  by code_simp

text \<open>
  Claim C2, amended. Whenever \<open>engineer_features\<close> returns, the frame has the three
  temporal and the three equipment features (constant defaults stand in when their source
  columns are absent). The basic and rolling stages substitute nothing. When the KPI
  arithmetic does not raise and, after the normalisation of the column aliases, at most
  one column is labelled \<open>Energy_kWh\<close> and at most one \<open>Yield_loss_pct\<close>, \<open>engineer_features\<close>
  returns, whatever the rolling statistics raise, and the frame has all 15 named features
  if, after the normalisation, it has \<open>Energy_kWh\<close>, \<open>OutputWeight_kg\<close>, \<open>InputWeight_kg\<close> and
  \<open>RoomTemp_C\<close>, in particular if the input has them under these names.
\<close>

theorem engineer_features_columns:
  "(\<forall>cols'. engineer_features arith rolling init_config cols = Inr cols' \<longrightarrow>
      set [''Batch_Hour'', ''Batch_DayOfWeek'', ''Time_Since_Last_Batch'',
           ''Machine_Batch_Count'', ''ProductionStage_Encoded'', ''Machine_Utilization''] \<subseteq> set cols')
   \<and> ((\<forall>operands. arith operands = None)
        \<and> count_label ''Energy_kWh'' (apply_mapping column_mapping cols) \<le> 1
        \<and> count_label ''Yield_loss_pct'' (apply_mapping column_mapping cols) \<le> 1 \<longrightarrow>
        (\<exists>cols'. engineer_features arith rolling init_config cols = Inr cols'
           \<and> (set [''Energy_kWh'', ''OutputWeight_kg'', ''InputWeight_kg'', ''RoomTemp_C'']
                 \<subseteq> set (apply_mapping column_mapping cols)
               \<longrightarrow> set get_feature_names \<subseteq> set cols')
           \<and> (set [''Energy_kWh'', ''OutputWeight_kg'', ''InputWeight_kg'', ''RoomTemp_C''] \<subseteq> set cols
               \<longrightarrow> set get_feature_names \<subseteq> set cols')))"
proof (intro conjI allI impI)
  fix cols'
  assume "engineer_features arith rolling init_config cols = Inr cols'"
  from engineer_features_Inr [OF this]
  show "set [''Batch_Hour'', ''Batch_DayOfWeek'', ''Time_Since_Last_Batch'',
           ''Machine_Batch_Count'', ''ProductionStage_Encoded'', ''Machine_Utilization''] \<subseteq> set cols'"
    by auto
next
  assume h: "(\<forall>operands. arith operands = None)
        \<and> count_label ''Energy_kWh'' (apply_mapping column_mapping cols) \<le> 1
        \<and> count_label ''Yield_loss_pct'' (apply_mapping column_mapping cols) \<le> 1"
  then have quiet: "\<forall>operands. arith operands = None" by blast
  from basic_features_complete [OF quiet, of cols]
  obtain basic where
    b: "calculate_basic_features arith cols = Inr basic"
    and full: "set [''Energy_kWh'', ''OutputWeight_kg'', ''InputWeight_kg'', ''RoomTemp_C'']
             \<subseteq> set (apply_mapping column_mapping cols) \<longrightarrow>
         set [''Energy_kWh'', ''Energy_per_kg'', ''Yield_loss_pct'', ''RoomTemp_C'', ''CO2_per_kg'', ''Energy_x_Temp'']
           \<subseteq> set basic"
    and cnt: "\<forall>c. count_label c basic \<le> 1 \<longleftrightarrow> count_label c (apply_mapping column_mapping cols) \<le> 1"
    by blast
  from cnt h have ce: "count_label ''Energy_kWh'' basic \<le> 1"
    and cy: "count_label ''Yield_loss_pct'' basic \<le> 1"
    by blast+
  let ?t = "calculate_temporal_features init_config basic"
  from ce cy have "count_label ''Energy_kWh'' ?t \<le> 1" "count_label ''Yield_loss_pct'' ?t \<le> 1"
    by (simp_all only: temporal_features_count)
  from rolling_features_returns [OF this, of rolling init_config]
  obtain rolled where r: "calculate_rolling_features rolling init_config ?t = Inr rolled"
    by blast
  define e where "e = calculate_equipment_features init_config rolled"
  have e: "engineer_features arith rolling init_config cols = Inr e"
    by (simp add: engineer_features_def b r e_def)
  from engineer_features_Inr [OF e] b
  have later: "set basic \<union> set [''Batch_Hour'', ''Batch_DayOfWeek'', ''Time_Since_Last_Batch'',
        ''Machine_Batch_Count'', ''ProductionStage_Encoded'', ''Machine_Utilization''] \<subseteq> set e
     \<and> (''Energy_kWh'' \<in> set basic \<and> ''Yield_loss_pct'' \<in> set basic \<longrightarrow>
        set [''Energy_kWh_Rolling_Mean'', ''Energy_kWh_Rolling_Std'', ''Yield_loss_pct_Rolling_Mean'']
          \<subseteq> set e)"
    by auto
  have norm: "set get_feature_names \<subseteq> set e"
    if src: "set [''Energy_kWh'', ''OutputWeight_kg'', ''InputWeight_kg'', ''RoomTemp_C'']
                 \<subseteq> set (apply_mapping column_mapping cols)"
  proof -
    from full src have six: "set [''Energy_kWh'', ''Energy_per_kg'', ''Yield_loss_pct'', ''RoomTemp_C'',
        ''CO2_per_kg'', ''Energy_x_Temp''] \<subseteq> set basic"
      by blast
    then have "''Energy_kWh'' \<in> set basic \<and> ''Yield_loss_pct'' \<in> set basic"
      by simp
    with later six show ?thesis
      unfolding get_feature_names_def by (simp del: set_simps list.set) auto
  qed
  have direct: "set get_feature_names \<subseteq> set e"
    if src: "set [''Energy_kWh'', ''OutputWeight_kg'', ''InputWeight_kg'', ''RoomTemp_C''] \<subseteq> set cols"
  proof (rule norm)
    show "set [''Energy_kWh'', ''OutputWeight_kg'', ''InputWeight_kg'', ''RoomTemp_C'']
         \<subseteq> set (apply_mapping column_mapping cols)"
    proof
      fix c assume c: "c \<in> set [''Energy_kWh'', ''OutputWeight_kg'', ''InputWeight_kg'', ''RoomTemp_C'']"
      with src have "c \<in> set cols" by blast
      with c show "c \<in> set (apply_mapping column_mapping cols)"
        by (rule column_mapping_keeps)
    qed
  qed
  from e norm direct
  show "\<exists>cols'. engineer_features arith rolling init_config cols = Inr cols'
           \<and> (set [''Energy_kWh'', ''OutputWeight_kg'', ''InputWeight_kg'', ''RoomTemp_C'']
                 \<subseteq> set (apply_mapping column_mapping cols)
               \<longrightarrow> set get_feature_names \<subseteq> set cols')
           \<and> (set [''Energy_kWh'', ''OutputWeight_kg'', ''InputWeight_kg'', ''RoomTemp_C''] \<subseteq> set cols
               \<longrightarrow> set get_feature_names \<subseteq> set cols')"
    by blast
qed

theorem engineer_features_columns_witness:
  "\<exists>cols'. engineer_features (\<lambda>operands. None) (\<lambda>target. Some ValueError) init_config
          [''id'', ''upload_timestamp'', ''energy_consumption__kwh_'', ''outputweight_kg'',
           ''inputweight_kg'', ''roomtemp_c'', ''anomaly_alert''] = Inr cols'
      \<and> set get_feature_names \<subseteq> set cols'"
proof -
  let ?cols = "[''id'', ''upload_timestamp'', ''energy_consumption__kwh_'', ''outputweight_kg'',
           ''inputweight_kg'', ''roomtemp_c'', ''anomaly_alert'']"
  have src: "set [''Energy_kWh'', ''OutputWeight_kg'', ''InputWeight_kg'', ''RoomTemp_C'']
         \<subseteq> set (apply_mapping column_mapping ?cols)"
    by code_simp
  have once: "count_label ''Energy_kWh'' (apply_mapping column_mapping ?cols) \<le> 1"
    "count_label ''Yield_loss_pct'' (apply_mapping column_mapping ?cols) \<le> 1"
    by code_simp+
  have quiet: "\<forall>operands. (\<lambda>operands. None :: exn option) operands = None"
    by simp
  from engineer_features_columns [of "\<lambda>operands. None" "\<lambda>target. Some ValueError" ?cols] quiet src once
  show ?thesis
    by blast
qed

end
